theory Spec2Isabelle
  imports Main "HOL-Library.AList" "HOL-Library.Word"
begin

section \<open>Values shared by the server and the client\<close>

text \<open>
  A field of a parsed JSON frame is either absent (\<open>None\<close>, JavaScript's
  \<open>undefined\<close>) or a string. The handlers test such fields with \<open>!x\<close>, which
  holds for an absent field and for the empty string.
\<close>

definition truthy :: "string option \<Rightarrow> bool" where
  "truthy v = (case v of None \<Rightarrow> False | Some x \<Rightarrow> x \<noteq> [])"

text \<open>\<open>WebSocket.readyState\<close>.\<close>

datatype ready_state = CONNECTING | OPEN | CLOSING | CLOSED

text \<open>Frames a client sends to the server (the \<open>type\<close> field picks the constructor).\<close>

datatype client_frame =
    Send_message "string option" "string option" "string option" "nat option"
      \<comment> \<open>\<open>clientMsgId\<close>, \<open>to\<close>, \<open>body\<close>, \<open>ts\<close>\<close>
  | Ack_message "string option"
      \<comment> \<open>\<open>serverMsgId\<close>\<close>
  | Ping
  | Other_type string

text \<open>
  One element of the \<open>messages\<close> array of an \<open>undelivered_batch\<close> frame:
  \<open>serverMsgId\<close>, \<open>from\<close>, \<open>body\<close>, \<open>ts\<close>.
\<close>

type_synonym batch_item = "string option \<times> string \<times> string \<times> nat"

text \<open>Frames the server sends to a client.\<close>

datatype server_frame =
    Incoming_message "string option" string string nat
      \<comment> \<open>\<open>serverMsgId\<close>, \<open>from\<close>, \<open>body\<close>, \<open>ts\<close>\<close>
  | Ack_receipt "string option" "string option" string
      \<comment> \<open>type \<open>ack_message\<close>: \<open>serverMsgId\<close>, \<open>clientMsgId\<close>, \<open>to\<close>\<close>
  | Presence_update string string
      \<comment> \<open>\<open>user\<close>, \<open>status\<close>\<close>
  | Undelivered_batch "batch_item list option"
      \<comment> \<open>\<open>messages\<close>; \<open>None\<close> when the field is absent or not an array\<close>
  | Pong nat
  | Error_frame string
  | Unknown_frame string

section \<open>server.js\<close>

subsection \<open>generateMessageId\<close>

text \<open>
  \<open>`${Date.now()}-${crypto.randomBytes(8).toString('hex')}`\<close>: the clock reading in
  decimal, a dash, and two lower-case hexadecimal digits for each random byte. The clock
  reading and the random bytes come from the environment and are arguments of the model.
\<close>

definition digit_char :: "nat \<Rightarrow> char" where
  "digit_char d = ''0123456789abcdef'' ! d"

fun decimal :: "nat \<Rightarrow> string" where
  "decimal n = (if n < 10 then [digit_char n] else decimal (n div 10) @ [digit_char (n mod 10)])"

definition hex_byte :: "8 word \<Rightarrow> string" where
  "hex_byte b = [digit_char (unat b div 16), digit_char (unat b mod 16)]"

definition hex :: "8 word list \<Rightarrow> string" where
  "hex bs = concat (map hex_byte bs)"

definition generateMessageId :: "nat \<Rightarrow> 8 word list \<Rightarrow> string" where
  "generateMessageId now randomBytes = decimal now @ ''-'' @ hex randomBytes"

subsection \<open>The modules \<open>sockets\<close> and \<open>messages\<close>\<close>

text \<open>A message object as \<open>handleSendMessage\<close> builds it.\<close>

record msg =
  m_serverMsgId :: string
  m_clientMsgId :: string
  m_from :: string
  m_to :: string
  m_body :: string
  m_ts :: nat

text \<open>A WebSocket object of the server is named by a handle.\<close>

type_synonym ws = nat

text \<open>
  Modelled from the spec: the module \<open>./sockets\<close> (the Connection Registry of section
  4.1), which server.js requires and whose file is not among the sources. The registry maps
  an identity to its single live connection handle: \<open>register\<close> replaces any existing
  handle, \<open>unregister\<close> removes the mapping if present and is a no-op otherwise,
  \<open>lookup\<close> reflects the most recent call, \<open>listOnline\<close> gives the registered
  identities.
\<close>

type_synonym registry = "(string \<times> ws) list"

definition registerUser :: "string \<Rightarrow> ws \<Rightarrow> registry \<Rightarrow> registry" where
  "registerUser username w reg = AList.update username w reg"

definition unregisterUser :: "string \<Rightarrow> registry \<Rightarrow> registry" where
  "unregisterUser username reg = AList.delete username reg"

definition getSocket :: "string \<Rightarrow> registry \<Rightarrow> ws option" where
  "getSocket username reg = map_of reg username"

definition getOnlineUsers :: "registry \<Rightarrow> string list" where
  "getOnlineUsers reg = map fst reg"

text \<open>
  Modelled from the spec: the module \<open>./messages\<close> (the Outbox Store of section 4.2),
  which server.js requires and whose file is not among the sources. Entries are keyed by
  \<open>serverMessageId\<close>; \<open>add\<close> inserts; \<open>remove\<close> removes the entry or reports
  absence without error; \<open>drainFor\<close> returns, in insertion order, every stored entry
  whose \<open>to\<close> equals the identity and does not remove them. \<open>getMessage\<close> is the
  lookup by key that \<open>handleAckMessage\<close> calls before it removes. The spec calls an
  \<open>add\<close> under a key that is already stored a logic error; here it replaces the entry
  in place, as \<open>Map.set\<close> does.
\<close>

type_synonym outbox = "(string \<times> msg) list"

definition addMessage :: "msg \<Rightarrow> outbox \<Rightarrow> outbox" where
  "addMessage m store = AList.update (m_serverMsgId m) m store"

definition getMessage :: "string \<Rightarrow> outbox \<Rightarrow> msg option" where
  "getMessage serverMsgId store = map_of store serverMsgId"

definition removeMessage :: "string \<Rightarrow> outbox \<Rightarrow> outbox" where
  "removeMessage serverMsgId store = AList.delete serverMsgId store"

definition getMessagesForUser :: "string \<Rightarrow> outbox \<Rightarrow> msg list" where
  "getMessagesForUser username store = filter (\<lambda>m. m_to m = username) (map snd store)"

subsection \<open>The state of the server process\<close>

text \<open>
  \<open>sockets\<close> and \<open>messages\<close> are the two module states; \<open>readyState\<close> is the
  state of each WebSocket object; \<open>sent\<close> lists, per WebSocket object, the frames
  handed to its \<open>send\<close>, oldest first. Console output is not part of the state.
\<close>

record server_state =
  sockets :: registry
  messages :: outbox
  readyState :: "ws \<Rightarrow> ready_state"
  sent :: "ws \<Rightarrow> server_frame list"

definition ws_send :: "ws \<Rightarrow> server_frame \<Rightarrow> server_state \<Rightarrow> server_state" where
  "ws_send w f s = s\<lparr>sent := (sent s)(w := sent s w @ [f])\<rparr>"

text \<open>\<open>socket && socket.readyState === WebSocket.OPEN\<close> for the result of \<open>getSocket\<close>.\<close>

definition open_socket :: "string \<Rightarrow> server_state \<Rightarrow> ws option" where
  "open_socket username s =
     (case getSocket username (sockets s) of
        None \<Rightarrow> None
      | Some w \<Rightarrow> if readyState s w = OPEN then Some w else None)"

text \<open>
  What one call of \<open>handleSendMessage\<close> reads from the environment: \<open>Date.now()\<close>
  and \<open>crypto.randomBytes(8)\<close> inside \<open>generateMessageId\<close>, and the later
  \<open>Date.now()\<close> of \<open>ts || Date.now()\<close>.
\<close>

record send_env =
  now_id :: nat
  random_bytes :: "8 word list"
  now_ts :: nat

subsection \<open>handleSendMessage\<close>

definition handleSendMessage ::
  "send_env \<Rightarrow> string \<Rightarrow> string option \<Rightarrow> string option \<Rightarrow> string option \<Rightarrow> nat option
     \<Rightarrow> server_state \<Rightarrow> server_state" where
  "handleSendMessage env sender clientMsgId to body ts s =
     (if \<not> truthy clientMsgId \<or> \<not> truthy to \<or> \<not> truthy body then s
      else
        let serverMsgId = generateMessageId (now_id env) (random_bytes env);
            m = \<lparr>m_serverMsgId = serverMsgId, m_clientMsgId = the clientMsgId,
                 m_from = sender, m_to = the to, m_body = the body,
                 m_ts = (case ts of None \<Rightarrow> now_ts env
                         | Some t \<Rightarrow> if t = 0 then now_ts env else t)\<rparr>;
            s1 = (case open_socket (m_to m) s of
                    Some recipientSocket \<Rightarrow>
                      (ws_send recipientSocket
                         (Incoming_message (Some (m_serverMsgId m)) (m_from m) (m_body m) (m_ts m)) s)
                      \<lparr>messages := addMessage m (messages s)\<rparr>
                  | None \<Rightarrow> s\<lparr>messages := addMessage m (messages s)\<rparr>)
        in (case open_socket sender s1 of
              Some senderSocket \<Rightarrow>
                ws_send senderSocket
                  (Ack_receipt (Some (m_serverMsgId m)) (Some (m_clientMsgId m)) (m_to m)) s1
            | None \<Rightarrow> s1))"

subsection \<open>handleAckMessage\<close>

definition handleAckMessage :: "string \<Rightarrow> string option \<Rightarrow> server_state \<Rightarrow> server_state" where
  "handleAckMessage username serverMsgId s =
     (if \<not> truthy serverMsgId then s
      else
        (case getMessage (the serverMsgId) (messages s) of
           Some m \<Rightarrow>
             if m_to m = username
             then s\<lparr>messages := removeMessage (the serverMsgId) (messages s)\<rparr>
             else s
         | None \<Rightarrow> s))"

subsection \<open>sendUndeliveredMessages, broadcastPresence, sendError\<close>

definition sendUndeliveredMessages :: "string \<Rightarrow> ws \<Rightarrow> server_state \<Rightarrow> server_state" where
  "sendUndeliveredMessages username w s =
     (let undelivered = getMessagesForUser username (messages s)
      in if length undelivered > 0
         then ws_send w
                (Undelivered_batch
                   (Some (map (\<lambda>m. (Some (m_serverMsgId m), m_from m, m_body m, m_ts m))
                            undelivered))) s
         else s)"

fun presence_loop :: "string \<Rightarrow> server_frame \<Rightarrow> string list \<Rightarrow> server_state \<Rightarrow> server_state" where
  "presence_loop username f [] s = s"
| "presence_loop username f (onlineUser # rest) s =
     presence_loop username f rest
       (if onlineUser \<noteq> username
        then (case open_socket onlineUser s of Some w \<Rightarrow> ws_send w f s | None \<Rightarrow> s)
        else s)"

definition broadcastPresence :: "string \<Rightarrow> string \<Rightarrow> server_state \<Rightarrow> server_state" where
  "broadcastPresence username status s =
     presence_loop username (Presence_update username status) (getOnlineUsers (sockets s)) s"

definition sendError :: "ws \<Rightarrow> string \<Rightarrow> server_state \<Rightarrow> server_state" where
  "sendError w err s = (if readyState s w = OPEN then ws_send w (Error_frame err) s else s)"

subsection \<open>handleMessage and the connection handler\<close>

text \<open>
  \<open>handleMessage\<close> dispatches on the \<open>type\<close> of a parsed frame. The environment of a
  \<open>send_message\<close> is the one of \<open>handleSendMessage\<close>; \<open>ping\<close> reads the clock
  \<open>now_ts\<close>.
\<close>

definition handleMessage :: "send_env \<Rightarrow> string \<Rightarrow> client_frame \<Rightarrow> ws \<Rightarrow> server_state \<Rightarrow> server_state" where
  "handleMessage env username message w s =
     (case message of
        Send_message clientMsgId to body ts \<Rightarrow> handleSendMessage env username clientMsgId to body ts s
      | Ack_message serverMsgId \<Rightarrow> handleAckMessage username serverMsgId s
      | Ping \<Rightarrow> ws_send w (Pong (now_ts env)) s
      | Other_type t \<Rightarrow> sendError w (''Unknown message type: '' @ t) s)"

text \<open>
  The events of the WebSocket server for connections whose token was accepted: the
  \<open>connection\<close> event, a \<open>message\<close> event whose data parses (\<open>Some\<close>) or does not
  (\<open>None\<close>), and the \<open>close\<close> event. A connection and a message arrive on an open
  socket; a closed socket is \<open>CLOSED\<close>.
\<close>

datatype server_event =
    Connection string ws
  | Message send_env string ws "client_frame option"
  | Close string ws

definition server_step :: "server_event \<Rightarrow> server_state \<Rightarrow> server_state" where
  "server_step e s =
     (case e of
        Connection username w \<Rightarrow>
          sendUndeliveredMessages username w
            (broadcastPresence username ''online''
               (s\<lparr>readyState := (readyState s)(w := OPEN),
                   sockets := registerUser username w (sockets s)\<rparr>))
      | Message env username w data \<Rightarrow>
          (case data of
             Some message \<Rightarrow> handleMessage env username message w s
           | None \<Rightarrow> sendError w ''Invalid message format'' s)
      | Close username w \<Rightarrow>
          broadcastPresence username ''offline''
            (s\<lparr>readyState := (readyState s)(w := CLOSED),
                sockets := unregisterUser username (sockets s)\<rparr>))"

fun server_run :: "server_event list \<Rightarrow> server_state \<Rightarrow> server_state" where
  "server_run [] s = s"
| "server_run (e # es) s = server_run es (server_step e s)"

definition server_init :: server_state where
  "server_init = \<lparr>sockets = [], messages = [], readyState = (\<lambda>w. CONNECTING), sent = (\<lambda>w. [])\<rparr>"

section \<open>chat.js (the client session)\<close>

text \<open>
  The client file defines \<open>handleMessage\<close>, \<open>handleAckMessage\<close> and
  \<open>generateMessageId\<close> as the server does; the client's functions carry the prefix
  \<open>chat_\<close> here.
\<close>

definition MAX_RECONNECT_ATTEMPTS :: nat where
  "MAX_RECONNECT_ATTEMPTS = 5"

definition BASE_DELAY :: nat where
  "BASE_DELAY = 1000"

datatype js_error = TypeError

text \<open>
  The \<open>div\<close> that \<open>appendMessage\<close> creates: its class list, its two data
  attributes, and what its \<open>innerHTML\<close> shows (the body, the time, the hourglass of a
  pending message).
\<close>

record message_div =
  classList :: "string list"
  ds_clientMsgId :: "string option"
  ds_serverMsgId :: "string option"
  div_body :: string
  div_ts :: nat
  div_status :: bool

definition classList_add :: "string \<Rightarrow> string list \<Rightarrow> string list" where
  "classList_add c cs = (if c \<in> set cs then cs else cs @ [c])"

definition classList_remove :: "string \<Rightarrow> string list \<Rightarrow> string list" where
  "classList_remove c cs = filter (\<lambda>x. x \<noteq> c) cs"

text \<open>
  DOM elements are shared between the messages container and the map
  \<open>pendingMessages\<close>, and \<open>handleAckMessage\<close> mutates them in place. The elements
  ever created are the list \<open>divs\<close>; an element is named by its index there.
\<close>

type_synonym element = nat

text \<open>
  The variables of the \<open>ChatApp\<close> closure. \<open>socket\<close> is \<open>None\<close> for
  \<open>null\<close> and otherwise the \<open>readyState\<close> of the WebSocket object;
  \<open>reconnectTimer\<close> is the delay of the pending timer; a value of
  \<open>pendingMessages\<close> is \<open>None\<close> when \<open>appendMessage\<close> returned \<open>null\<close>;
  \<open>messagesContainer\<close> is \<open>None\<close> when the page has no such element, and
  otherwise its children; \<open>outgoing\<close> lists the frames handed to
  \<open>socket.send\<close>, oldest first; \<open>connectionStatus\<close> is the text last written by
  \<open>updateConnectionStatus\<close>.
\<close>

record client_state =
  socket :: "ready_state option"
  reconnectAttempts :: nat
  reconnectTimer :: "nat option"
  seenMessageIds :: "string option set"
  pendingMessages :: "string \<Rightarrow> element option option"
  currentUser :: string
  selectedContact :: string
  messagesContainer :: "element list option"
  divs :: "message_div list"
  outgoing :: "client_frame list"
  connectionStatus :: string

subsection \<open>Connection and reconnection\<close>

definition updateConnectionStatus :: "string \<Rightarrow> client_state \<Rightarrow> client_state" where
  "updateConnectionStatus message s = s\<lparr>connectionStatus := message\<rparr>"

definition scheduleReconnect :: "client_state \<Rightarrow> client_state" where
  "scheduleReconnect s =
     (if reconnectTimer s \<noteq> None then s
      else
        let attempts = reconnectAttempts s + 1;
            delay = min (BASE_DELAY * 2 ^ (attempts - 1)) 30000
        in (updateConnectionStatus
              (''Reconnecting in '' @ decimal ((delay + 999) div 1000) @ ''s...'')
              (s\<lparr>reconnectAttempts := attempts\<rparr>))
           \<lparr>reconnectTimer := Some delay\<rparr>)"

text \<open>
  \<open>connect\<close>: whether \<open>new WebSocket(wsUrl)\<close> throws is decided by the
  environment (\<open>ctor_throws\<close>); the \<open>catch\<close> block then calls
  \<open>scheduleReconnect\<close>.
\<close>

definition connect :: "bool \<Rightarrow> client_state \<Rightarrow> client_state" where
  "connect ctor_throws s =
     (let s1 = updateConnectionStatus ''Connecting...'' s
      in if ctor_throws then scheduleReconnect s1
         else s1\<lparr>socket := Some CONNECTING\<rparr>)"

definition handleOpen :: "client_state \<Rightarrow> client_state" where
  "handleOpen s = updateConnectionStatus ''Connected'' (s\<lparr>reconnectAttempts := 0\<rparr>)"

definition handleClose :: "bool \<Rightarrow> client_state \<Rightarrow> client_state" where
  "handleClose wasClean s =
     (let s1 = updateConnectionStatus ''Disconnected'' s
      in if \<not> wasClean \<and> reconnectAttempts s1 < MAX_RECONNECT_ATTEMPTS
         then scheduleReconnect s1
         else if reconnectAttempts s1 \<ge> MAX_RECONNECT_ATTEMPTS
         then updateConnectionStatus ''Connection failed. Please refresh.'' s1
         else s1)"

subsection \<open>appendMessage and selectContact\<close>

record message_args =
  a_from :: string
  a_to :: string
  a_body :: string
  a_ts :: nat
  a_clientMsgId :: "string option"
  a_serverMsgId :: "string option"
  a_pending :: bool

definition appendMessage :: "message_args \<Rightarrow> client_state \<Rightarrow> element option \<times> client_state" where
  "appendMessage a s =
     (case messagesContainer s of
        None \<Rightarrow> (None, s)
      | Some children \<Rightarrow>
          let otherUser = (if a_from a = currentUser s then a_to a else a_from a)
          in if selectedContact s \<noteq> [] \<and> otherUser \<noteq> selectedContact s then (None, s)
             else
               let messageDiv =
                     \<lparr>classList =
                        [''message'', if a_from a = currentUser s then ''sent'' else ''received'']
                        @ (if a_pending a then [''pending''] else []),
                      ds_clientMsgId = (if truthy (a_clientMsgId a) then a_clientMsgId a else None),
                      ds_serverMsgId = (if truthy (a_serverMsgId a) then a_serverMsgId a else None),
                      div_body = a_body a,
                      div_ts = a_ts a,
                      div_status = a_pending a\<rparr>;
                   e = length (divs s)
               in (Some e, s\<lparr>divs := divs s @ [messageDiv],
                              messagesContainer := Some (children @ [e])\<rparr>))"

definition selectContact :: "string \<Rightarrow> client_state \<Rightarrow> client_state" where
  "selectContact contact s =
     s\<lparr>selectedContact := contact,
       messagesContainer := (case messagesContainer s of None \<Rightarrow> None | Some children \<Rightarrow> Some [])\<rparr>"

subsection \<open>Sending\<close>

definition is_space :: "char \<Rightarrow> bool" where
  "is_space c = (c \<in> set [CHR '' '', CHR 0x09, CHR 0x0A, CHR 0x0B, CHR 0x0C, CHR 0x0D])"

definition trim :: "string \<Rightarrow> string" where
  "trim x = rev (dropWhile is_space (rev (dropWhile is_space x)))"

text \<open>
  \<open>sendMessage\<close> reads the input field (\<open>None\<close> when the page has none), a fresh
  \<open>clientMsgId\<close> from the client's \<open>generateMessageId\<close> and \<open>Date.now()\<close>.
  When the socket is not open and \<open>appendMessage\<close> returned \<open>null\<close>, marking the
  element as failed throws; the state is then the one reached before the throw.
\<close>

definition sendMessage ::
  "string option \<Rightarrow> string \<Rightarrow> nat \<Rightarrow> client_state \<Rightarrow> js_error option \<times> client_state" where
  "sendMessage input clientMsgId ts s =
     (let body = (case input of None \<Rightarrow> [] | Some v \<Rightarrow> trim v)
      in if body = [] \<or> selectedContact s = [] then (None, s)
         else
           let (messageElement, s1) =
                 appendMessage
                   \<lparr>a_from = currentUser s, a_to = selectedContact s, a_body = body, a_ts = ts,
                    a_clientMsgId = Some clientMsgId, a_serverMsgId = None, a_pending = True\<rparr> s;
               s2 = s1\<lparr>pendingMessages := (pendingMessages s1)(clientMsgId := Some messageElement)\<rparr>
           in if socket s2 = Some OPEN
              then (None,
                    s2\<lparr>outgoing := outgoing s2 @
                         [Send_message (Some clientMsgId) (Some (selectedContact s)) (Some body)
                            (Some ts)]\<rparr>)
              else
                (case messageElement of
                   None \<Rightarrow> (Some TypeError, s2)
                 | Some e \<Rightarrow>
                     (None,
                      s2\<lparr>divs := (divs s2)
                            [e := (divs s2 ! e)\<lparr>classList := classList_add ''failed''
                                                             (classList (divs s2 ! e))\<rparr>]\<rparr>)))"

subsection \<open>Inbound frames\<close>

definition handleIncomingMessage ::
  "string option \<Rightarrow> string \<Rightarrow> string \<Rightarrow> nat \<Rightarrow> client_state \<Rightarrow> client_state" where
  "handleIncomingMessage serverMsgId sender body ts s =
     (if serverMsgId \<in> seenMessageIds s then s
      else
        let s1 = s\<lparr>seenMessageIds := insert serverMsgId (seenMessageIds s)\<rparr>;
            s2 = snd (appendMessage
                        \<lparr>a_from = sender, a_to = currentUser s1, a_body = body, a_ts = ts,
                         a_clientMsgId = None, a_serverMsgId = serverMsgId, a_pending = False\<rparr> s1)
        in if socket s2 = Some OPEN
           then s2\<lparr>outgoing := outgoing s2 @ [Ack_message serverMsgId]\<rparr>
           else s2)"

text \<open>
  The client's \<open>handleAckMessage\<close>. Assigning to \<open>dataset.serverMsgId\<close> stores a
  string, \<open>undefined\<close> for an absent field. A \<open>null\<close> element makes
  \<open>messageElement.classList\<close> throw before anything is changed.
\<close>

definition chat_handleAckMessage ::
  "string option \<Rightarrow> string option \<Rightarrow> client_state \<Rightarrow> js_error + client_state" where
  "chat_handleAckMessage serverMsgId clientMsgId s =
     (if truthy clientMsgId \<and> pendingMessages s (the clientMsgId) \<noteq> None
      then
        (case the (pendingMessages s (the clientMsgId)) of
           None \<Rightarrow> Inl TypeError
         | Some e \<Rightarrow>
             Inr (s\<lparr>divs := (divs s)
                       [e := (divs s ! e)
                          \<lparr>classList := classList_add ''delivered''
                                          (classList_remove ''pending'' (classList (divs s ! e))),
                           ds_serverMsgId :=
                             Some (case serverMsgId of None \<Rightarrow> ''undefined'' | Some x \<Rightarrow> x)\<rparr>],
                     pendingMessages := (pendingMessages s)(the clientMsgId := None)\<rparr>))
      else Inr s)"

text \<open>\<open>handlePresenceUpdate\<close> changes the contact list of the page only.\<close>

definition handlePresenceUpdate :: "string \<Rightarrow> string \<Rightarrow> client_state \<Rightarrow> client_state" where
  "handlePresenceUpdate user status s = s"

definition handleUndeliveredBatch :: "batch_item list option \<Rightarrow> client_state \<Rightarrow> client_state" where
  "handleUndeliveredBatch msgs s =
     (case msgs of
        None \<Rightarrow> s
      | Some items \<Rightarrow>
          fold (\<lambda>(serverMsgId, sender, body, ts). handleIncomingMessage serverMsgId sender body ts)
            items s)"

text \<open>
  The client's \<open>handleMessage\<close>: \<open>None\<close> is event data that does not parse. An
  exception of a handler is caught and logged.
\<close>

definition chat_handleMessage :: "server_frame option \<Rightarrow> client_state \<Rightarrow> client_state" where
  "chat_handleMessage data s =
     (case data of
        None \<Rightarrow> s
      | Some (Incoming_message serverMsgId sender body ts) \<Rightarrow>
          handleIncomingMessage serverMsgId sender body ts s
      | Some (Ack_receipt serverMsgId clientMsgId to) \<Rightarrow>
          (case chat_handleAckMessage serverMsgId clientMsgId s of Inl err \<Rightarrow> s | Inr s' \<Rightarrow> s')
      | Some (Presence_update user status) \<Rightarrow> handlePresenceUpdate user status s
      | Some (Undelivered_batch msgs) \<Rightarrow> handleUndeliveredBatch msgs s
      | Some other \<Rightarrow> s)"

subsection \<open>init and the events of a session\<close>

text \<open>
  \<open>init\<close> reads \<open>token\<close> and \<open>user\<close> from the page URL and looks the elements
  up; \<open>has_container\<close> says whether the messages container exists.
\<close>

definition chat_initial :: "string option \<Rightarrow> bool \<Rightarrow> client_state" where
  "chat_initial user has_container =
     \<lparr>socket = None, reconnectAttempts = 0, reconnectTimer = None, seenMessageIds = {},
      pendingMessages = (\<lambda>k. None),
      currentUser = (case user of None \<Rightarrow> [] | Some u \<Rightarrow> u),
      selectedContact = [],
      messagesContainer = (if has_container then Some [] else None),
      divs = [], outgoing = [], connectionStatus = []\<rparr>"

definition init :: "string option \<Rightarrow> string option \<Rightarrow> bool \<Rightarrow> bool \<Rightarrow> client_state" where
  "init token user has_container ctor_throws =
     (if \<not> truthy token \<or> \<not> truthy user then chat_initial user has_container
      else connect ctor_throws (chat_initial user has_container))"

text \<open>
  What happens to a session after \<open>init\<close>: the socket opens, delivers a frame or
  closes (the browser has set \<open>readyState\<close> by then); the reconnection timer fires
  (the constructor of the new socket throws or not); the user sends a message (input text,
  generated \<open>clientMsgId\<close>, clock) or selects a contact.
\<close>

datatype chat_event =
    Opened
  | Frame "server_frame option"
  | Closed bool
  | Timer_fired bool
  | User_send "string option" string nat
  | User_select string

definition chat_step :: "chat_event \<Rightarrow> client_state \<Rightarrow> client_state" where
  "chat_step e s =
     (case e of
        Opened \<Rightarrow> handleOpen (s\<lparr>socket := Some OPEN\<rparr>)
      | Frame data \<Rightarrow> chat_handleMessage data s
      | Closed wasClean \<Rightarrow> handleClose wasClean (s\<lparr>socket := Some CLOSED\<rparr>)
      | Timer_fired ctor_throws \<Rightarrow>
          (case reconnectTimer s of
             None \<Rightarrow> s
           | Some delay \<Rightarrow> connect ctor_throws (s\<lparr>reconnectTimer := None\<rparr>))
      | User_send input clientMsgId ts \<Rightarrow> snd (sendMessage input clientMsgId ts s)
      | User_select contact \<Rightarrow> selectContact contact s)"

fun chat_run :: "chat_event list \<Rightarrow> client_state \<Rightarrow> client_state" where
  "chat_run [] s = s"
| "chat_run (e # es) s = chat_run es (chat_step e s)"

subsection \<open>What a session shows\<close>

text \<open>
  The children of the messages container whose \<open>data-server-msg-id\<close> is the given
  identifier: the visual entries of that message.
\<close>

definition rendered_with :: "string \<Rightarrow> client_state \<Rightarrow> element list" where
  "rendered_with serverMsgId s =
     (case messagesContainer s of
        None \<Rightarrow> []
      | Some children \<Rightarrow> filter (\<lambda>e. ds_serverMsgId (divs s ! e) = Some serverMsgId) children)"

text \<open>
  The test of \<open>handleIncomingMessage\<close> and \<open>appendMessage\<close> together: the message
  is new, the page has a messages container, and no contact is selected or the sender is
  the selected contact. (The other user of an inbound message is its sender: its \<open>to\<close>
  is the current user.)
\<close>

definition shown :: "string option \<Rightarrow> string \<Rightarrow> client_state \<Rightarrow> bool" where
  "shown sid sender s \<longleftrightarrow>
     sid \<notin> seenMessageIds s \<and> messagesContainer s \<noteq> None
     \<and> (selectedContact s = [] \<or> sender = selectedContact s)"

text \<open>The \<open>ack_message\<close> frames for one \<open>serverMsgId\<close> among the frames a session sent.\<close>

definition acks_of :: "string option \<Rightarrow> client_state \<Rightarrow> client_frame list" where
  "acks_of sid s = filter (\<lambda>f. f = Ack_message sid) (outgoing s)"

text \<open>
  An event that delivers an \<open>ack_message\<close> frame on which the client's
  \<open>handleAckMessage\<close> would write the given identifier into the
  \<open>dataset.serverMsgId\<close> of a sent message.
\<close>

fun is_ack_for :: "string \<Rightarrow> chat_event \<Rightarrow> bool" where
  "is_ack_for x (Frame (Some (Ack_receipt serverMsgId clientMsgId to))) =
     ((case serverMsgId of None \<Rightarrow> ''undefined'' | Some y \<Rightarrow> y) = x)"
| "is_ack_for x e = False"

text \<open>
  The shape of the page that the handlers keep, for one identifier: the children of the
  container are elements that exist, and a child carries the identifier only if the
  Seen-Set has it.
\<close>

definition container_ok :: "string \<Rightarrow> client_state \<Rightarrow> bool" where
  "container_ok x s =
     (case messagesContainer s of
        None \<Rightarrow> True
      | Some children \<Rightarrow>
          (\<forall>e \<in> set children. e < length (divs s)) \<and>
          (\<forall>e \<in> set children. ds_serverMsgId (divs s ! e) = Some x \<longrightarrow>
              Some x \<in> seenMessageIds s))"



section \<open>Properties of server.js\<close>

declare decimal.simps [simp del]

subsection \<open>Who changes the outbox\<close>








lemma getMessage_removeMessage:
  "getMessage k (removeMessage k' store) = (if k = k' then None else getMessage k store)"
  by (simp add: getMessage_def removeMessage_def delete_conv')



subsection \<open>generateMessageId is injective\<close>

lemma digit_char_inj: "i < 16 \<Longrightarrow> j < 16 \<Longrightarrow> digit_char i = digit_char j \<Longrightarrow> i = j"
  unfolding digit_char_def
  by (subst (asm) nth_eq_iff_index_eq) simp_all

lemma digit_char_not_dash: "i < 16 \<Longrightarrow> digit_char i \<noteq> CHR ''-''"
proof -
  assume "i < 16"
  then have "digit_char i \<in> set ''0123456789abcdef''"
    unfolding digit_char_def by (intro nth_mem) simp
  then show ?thesis by auto
qed

lemma decimal_not_Nil: "decimal n \<noteq> []"
  by (subst decimal.simps) simp

lemma dash_notin_decimal: "CHR ''-'' \<notin> set (decimal n)"
proof (induction n rule: decimal.induct)
  case (1 n)
  show ?case
  proof (cases "n < 10")
    case True
    then show ?thesis
      using digit_char_not_dash [of n] by (subst decimal.simps) auto
  next
    case False
    have "n mod 10 < 16" by simp
    with False show ?thesis
      using 1 digit_char_not_dash [of "n mod 10"] by (subst decimal.simps) auto
  qed
qed

lemma decimal_inj: "decimal n = decimal m \<Longrightarrow> n = m"
proof (induction n arbitrary: m rule: decimal.induct)
  case (1 n)
  show ?case
  proof (cases "n < 10")
    case n: True
    show ?thesis
    proof (cases "m < 10")
      case True
      with n 1(2) show ?thesis
        using digit_char_inj [of n m] by (simp add: decimal.simps [of n] decimal.simps [of m])
    next
      case False
      with n 1(2) decimal_not_Nil [of "m div 10"] show ?thesis
        by (simp add: decimal.simps [of n] decimal.simps [of m] Cons_eq_append_conv)
    qed
  next
    case n: False
    show ?thesis
    proof (cases "m < 10")
      case True
      with n 1(2) decimal_not_Nil [of "n div 10"] show ?thesis
        by (simp add: decimal.simps [of n] decimal.simps [of m] append_eq_Cons_conv)
    next
      case False
      with n 1(2) have eq: "decimal (n div 10) = decimal (m div 10)"
        and d: "digit_char (n mod 10) = digit_char (m mod 10)"
        by (simp_all add: decimal.simps [of n] decimal.simps [of m])
      from 1(1) [OF n eq] have "n div 10 = m div 10" .
      moreover from d have "n mod 10 = m mod 10"
        by (intro digit_char_inj) simp_all
      ultimately show ?thesis
        by (metis div_mult_mod_eq)
    qed
  qed
qed

lemma hex_byte_inj: "hex_byte a = hex_byte b \<Longrightarrow> a = b"
proof -
  assume h: "hex_byte a = hex_byte b"
  have la: "unat a < 256" and lb: "unat b < 256"
    using unsigned_less [of a, where ?'a = nat] unsigned_less [of b, where ?'a = nat] by simp_all
  from h have "digit_char (unat a div 16) = digit_char (unat b div 16)"
    and "digit_char (unat a mod 16) = digit_char (unat b mod 16)"
    by (simp_all add: hex_byte_def)
  moreover from la have "unat a div 16 < 16" and "unat a mod 16 < 16" by simp_all
  moreover from lb have "unat b div 16 < 16" and "unat b mod 16 < 16" by simp_all
  ultimately have "unat a div 16 = unat b div 16" and "unat a mod 16 = unat b mod 16"
    by (simp_all add: digit_char_inj)
  then have "unat a = unat b" by (metis div_mult_mod_eq)
  then show ?thesis by (simp add: word_unat_eq_iff)
qed

lemma hex_inj: "hex xs = hex ys \<Longrightarrow> xs = ys"
proof (induction xs arbitrary: ys)
  case Nil
  then show ?case by (cases ys) (simp_all add: hex_def hex_byte_def)
next
  case (Cons x xs)
  show ?case
  proof (cases ys)
    case Nil
    with Cons.prems show ?thesis by (simp add: hex_def hex_byte_def)
  next
    case (Cons y ys')
    with Cons.prems have "hex_byte x @ hex xs = hex_byte y @ hex ys'"
      by (simp add: hex_def)
    moreover have "length (hex_byte x) = length (hex_byte y)" by (simp add: hex_byte_def)
    ultimately have "hex_byte x = hex_byte y" and "hex xs = hex ys'" by simp_all
    with Cons.IH Cons show ?thesis by (simp add: hex_byte_inj)
  qed
qed

lemma split_at_first:
  "c \<notin> set xs \<Longrightarrow> c \<notin> set xs' \<Longrightarrow> xs @ c # ys = xs' @ c # ys' \<Longrightarrow> xs = xs' \<and> ys = ys'"
proof (induction xs arbitrary: xs')
  case Nil
  then show ?case by (cases xs') auto
next
  case (Cons a xs)
  then show ?case by (cases xs') auto
qed

lemma generateMessageId_inj:
  "generateMessageId n bs = generateMessageId n' bs' \<longleftrightarrow> n = n' \<and> bs = bs'"
proof
  assume "generateMessageId n bs = generateMessageId n' bs'"
  then have "decimal n @ CHR ''-'' # hex bs = decimal n' @ CHR ''-'' # hex bs'"
    by (simp add: generateMessageId_def)
  then have "decimal n = decimal n' \<and> hex bs = hex bs'"
    by (rule split_at_first [OF dash_notin_decimal dash_notin_decimal])
  then show "n = n' \<and> bs = bs'" by (simp add: decimal_inj hex_inj)
qed simp

subsection \<open>Evaluation of the server on concrete events\<close>

lemmas server_eval =
  server_step_def server_init_def handleMessage_def handleSendMessage_def
  handleAckMessage_def truthy_def open_socket_def getSocket_def registerUser_def
  unregisterUser_def broadcastPresence_def getOnlineUsers_def sendUndeliveredMessages_def
  getMessagesForUser_def sendError_def
  ws_send_def addMessage_def getMessage_def removeMessage_def
  generateMessageId_def hex_def hex_byte_def digit_char_def decimal.simps Let_def





subsection \<open>Claims about the server\<close>

text \<open>
  Claim C3 says that \<open>acknowledge\<close> removes the Outbox entry before it verifies the
  acking identity, so that an acknowledgment by an identity other than the entry's
  \<open>to\<close> still removes the entry. \<open>handleAckMessage\<close> tests
  \<open>msg && msg.to === username\<close> first and calls \<open>removeMessage\<close> only in that
  branch. Counterexample to C3: alice sends a message to bob, who is offline; mallory
  acknowledges its \<open>serverMsgId\<close>; the entry is still in the outbox.
\<close>

theorem C3_counterexample:
  "(let s = server_run
              [Connection ''alice'' 0,
               Message \<lparr>now_id = 1000, random_bytes = [1, 2, 3, 4, 5, 6, 7, 8], now_ts = 1001\<rparr>
                 ''alice'' 0
                 (Some (Send_message (Some ''c1'') (Some ''bob'') (Some ''hi'') None))]
              server_init;
        serverMsgId = ''1000-0102030405060708''
    in map_option m_to (getMessage serverMsgId (messages s)) = Some ''bob''
       \<and> map_option m_to
            (getMessage serverMsgId (messages (handleAckMessage ''mallory'' (Some serverMsgId) s)))
          = Some ''bob'')"
  by (simp add: server_eval)

text \<open>
  Claim C3 as amended: when the outbox holds an entry under the acknowledged
  \<open>serverMsgId\<close> and the entry's \<open>to\<close> differs from the acking identity,
  \<open>handleAckMessage\<close> changes nothing: the entry stays in the outbox.
\<close>

theorem C3_mismatched_ack_keeps_entry:
  "getMessage serverMsgId (messages s) = Some m \<Longrightarrow> m_to m \<noteq> username \<Longrightarrow>
     handleAckMessage username (Some serverMsgId) s = s"
  by (simp add: handleAckMessage_def)

text \<open>Claim C3, the amended statement at a concrete outbox.\<close>

theorem C3_witness:
  "(let m = \<lparr>m_serverMsgId = ''m1'', m_clientMsgId = ''c1'', m_from = ''alice'',
              m_to = ''bob'', m_body = ''hi'', m_ts = 5\<rparr>;
        s = server_init\<lparr>messages := [(''m1'', m)]\<rparr>
    in getMessage ''m1'' (messages s) = Some m \<and> m_to m \<noteq> ''mallory''
       \<and> handleAckMessage ''mallory'' (Some ''m1'') s = s)"
  using C3_mismatched_ack_keeps_entry
    [of "''m1''" "server_init\<lparr>messages := [(''m1'', \<lparr>m_serverMsgId = ''m1'', m_clientMsgId = ''c1'', m_from = ''alice'',
              m_to = ''bob'', m_body = ''hi'', m_ts = 5\<rparr>)]\<rparr>"
        "\<lparr>m_serverMsgId = ''m1'', m_clientMsgId = ''c1'', m_from = ''alice'',
              m_to = ''bob'', m_body = ''hi'', m_ts = 5\<rparr>" "''mallory''"]
  by (simp add: getMessage_def server_init_def Let_def)

text \<open>
  Claim C4: \<open>acknowledge\<close> is idempotent. For every state, acking identity and
  \<open>serverMsgId\<close> field, a second call of \<open>handleAckMessage\<close> with the same
  arguments leaves the state, and so the outbox, as the first call left it: it removes
  nothing. \<open>handleAckMessage\<close> has no failing branch.
\<close>

theorem C4_acknowledge_idempotent:
  "handleAckMessage username serverMsgId (handleAckMessage username serverMsgId s)
     = handleAckMessage username serverMsgId s
   \<and> messages (handleAckMessage username serverMsgId (handleAckMessage username serverMsgId s))
     = messages (handleAckMessage username serverMsgId s)"
  by (simp add: handleAckMessage_def getMessage_removeMessage split: option.splits)

text \<open>Claim C4 at a concrete outbox: the first call removes the entry, the second nothing.\<close>

theorem C4_witness:
  "(let m = \<lparr>m_serverMsgId = ''m1'', m_clientMsgId = ''c1'', m_from = ''alice'',
              m_to = ''bob'', m_body = ''hi'', m_ts = 5\<rparr>;
        s = server_init\<lparr>messages := [(''m1'', m)]\<rparr>
    in messages (handleAckMessage ''bob'' (Some ''m1'') s) = []
       \<and> handleAckMessage ''bob'' (Some ''m1'') (handleAckMessage ''bob'' (Some ''m1'') s)
          = handleAckMessage ''bob'' (Some ''m1'') s)"
  using C4_acknowledge_idempotent
    [of "''bob''" "Some ''m1''" "server_init\<lparr>messages := [(''m1'', \<lparr>m_serverMsgId = ''m1'', m_clientMsgId = ''c1'', m_from = ''alice'',
              m_to = ''bob'', m_body = ''hi'', m_ts = 5\<rparr>)]\<rparr>"]
  by (simp add: Let_def handleAckMessage_def getMessage_def removeMessage_def truthy_def server_init_def)



text \<open>
  Claim C7: a \<open>send_message\<close> in which \<open>clientMsgId\<close>, \<open>to\<close> or \<open>body\<close> is
  missing or empty leaves the whole server state unchanged, whatever the environment
  offers for the identifier: no outbox entry and no frame to any socket.
\<close>

theorem C7_invalid_submit_creates_no_state:
  "\<not> truthy clientMsgId \<or> \<not> truthy to \<or> \<not> truthy body \<Longrightarrow>
     handleSendMessage env sender clientMsgId to body ts s = s
     \<and> handleMessage env sender (Send_message clientMsgId to body ts) w s = s
     \<and> server_step (Message env sender w (Some (Send_message clientMsgId to body ts))) s = s"
  by (simp add: handleSendMessage_def handleMessage_def server_step_def)

text \<open>Claim C7 for an empty body, both users connected.\<close>

theorem C7_witness:
  "\<not> truthy (Some []) \<and>
   handleSendMessage \<lparr>now_id = 1000, random_bytes = [1, 2, 3, 4, 5, 6, 7, 8], now_ts = 1001\<rparr>
     ''alice'' (Some ''c1'') (Some ''bob'') (Some []) None
     (server_run [Connection ''alice'' 0, Connection ''bob'' 1] server_init)
   = server_run [Connection ''alice'' 0, Connection ''bob'' 1] server_init"
  using C7_invalid_submit_creates_no_state
    [of "Some ''c1''" "Some ''bob''" "Some []"
        "\<lparr>now_id = 1000, random_bytes = [1, 2, 3, 4, 5, 6, 7, 8], now_ts = 1001\<rparr>" "''alice''" None
        "server_run [Connection ''alice'' 0, Connection ''bob'' 1] server_init"]
  by (simp add: truthy_def)

text \<open>
  Claim C8 says that the \<open>serverMessageId\<close>s of any sequence of submit calls are
  pairwise different. \<open>generateMessageId\<close> is a function of the clock reading and of
  the eight random bytes it draws. Counterexample to C8: two submits that draw the same
  clock reading and the same bytes; both receipts carry the same \<open>serverMsgId\<close>.
\<close>

theorem C8_counterexample:
  "(let env = \<lparr>now_id = 1000, random_bytes = [1, 2, 3, 4, 5, 6, 7, 8], now_ts = 1001\<rparr>;
        s = server_run
              [Connection ''alice'' 0,
               Message env ''alice'' 0
                 (Some (Send_message (Some ''c1'') (Some ''bob'') (Some ''hi'') None)),
               Message env ''alice'' 0
                 (Some (Send_message (Some ''c2'') (Some ''bob'') (Some ''again'') None))]
              server_init
    in sent s 0 =
         [Ack_receipt (Some ''1000-0102030405060708'') (Some ''c1'') ''bob'',
          Ack_receipt (Some ''1000-0102030405060708'') (Some ''c2'') ''bob''])"
  by (simp add: server_eval)

text \<open>
  Claim C8 as amended: the identifiers that \<open>generateMessageId\<close> gives to a sequence
  of submit calls are pairwise different exactly when the pairs of clock reading and
  random bytes drawn by the calls are pairwise different.
\<close>

theorem C8_ids_distinct_iff_draws_distinct:
  "distinct (map (\<lambda>env. generateMessageId (now_id env) (random_bytes env)) envs)
     \<longleftrightarrow> distinct (map (\<lambda>env. (now_id env, random_bytes env)) envs)"
proof -
  let ?g = "\<lambda>env. (now_id env, random_bytes env)"
  let ?h = "\<lambda>p. generateMessageId (fst p) (snd p)"
  have inj: "inj_on ?h A" for A
    by (rule inj_onI) (simp add: generateMessageId_inj prod_eq_iff)
  have "distinct (map ?h (map ?g envs)) \<longleftrightarrow> distinct (map ?g envs)"
    using inj [of "set (map ?g envs)"] by (simp only: distinct_map) simp
  then show ?thesis by (simp add: comp_def)
qed

section \<open>Properties of chat.js\<close>

subsection \<open>What handleIncomingMessage changes\<close>

lemma handleIncomingMessage_seen:
  "serverMsgId \<in> seenMessageIds s \<Longrightarrow> handleIncomingMessage serverMsgId sender body ts s = s"
  by (simp add: handleIncomingMessage_def)

lemma appendMessage_frame:
  "socket (snd (appendMessage a s)) = socket s"
  "reconnectAttempts (snd (appendMessage a s)) = reconnectAttempts s"
  "reconnectTimer (snd (appendMessage a s)) = reconnectTimer s"
  "seenMessageIds (snd (appendMessage a s)) = seenMessageIds s"
  "pendingMessages (snd (appendMessage a s)) = pendingMessages s"
  "currentUser (snd (appendMessage a s)) = currentUser s"
  "selectedContact (snd (appendMessage a s)) = selectedContact s"
  "outgoing (snd (appendMessage a s)) = outgoing s"
  "connectionStatus (snd (appendMessage a s)) = connectionStatus s"
  by (simp_all add: appendMessage_def Let_def split: option.splits)


lemma seen_handleIncomingMessage:
  "seenMessageIds (handleIncomingMessage sid sender body ts s) = insert sid (seenMessageIds s)"
  by (auto simp: handleIncomingMessage_def Let_def appendMessage_frame)

lemma outgoing_handleIncomingMessage:
  "outgoing (handleIncomingMessage sid sender body ts s) =
     outgoing s @ (if sid \<notin> seenMessageIds s \<and> socket s = Some OPEN then [Ack_message sid] else [])"
  by (simp add: handleIncomingMessage_def Let_def appendMessage_frame)

lemma divs_handleIncomingMessage:
  "divs (handleIncomingMessage sid sender body ts s) =
     divs s @ (if shown sid sender s
               then [\<lparr>classList = [''message'', if sender = currentUser s then ''sent'' else ''received''],
                      ds_clientMsgId = None,
                      ds_serverMsgId = (if truthy sid then sid else None),
                      div_body = body, div_ts = ts, div_status = False\<rparr>]
               else [])"
  by (auto simp: handleIncomingMessage_def Let_def appendMessage_def shown_def truthy_def
      split: option.splits)

lemma container_handleIncomingMessage:
  "messagesContainer (handleIncomingMessage sid sender body ts s) =
     (case messagesContainer s of
        None \<Rightarrow> None
      | Some children \<Rightarrow> Some (children @ (if shown sid sender s then [length (divs s)] else [])))"
  by (auto simp: handleIncomingMessage_def Let_def appendMessage_def shown_def
      split: option.splits)

subsection \<open>The page under inbound messages\<close>

lemma rendered_with_unseen:
  "container_ok x s \<Longrightarrow> Some x \<notin> seenMessageIds s \<Longrightarrow> rendered_with x s = []"
  by (auto simp: container_ok_def rendered_with_def filter_empty_conv split: option.splits)

lemma rendered_with_handleIncomingMessage:
  assumes "container_ok x s"
  shows "rendered_with x (handleIncomingMessage sid sender body ts s) =
           rendered_with x s @
             (if shown sid sender s \<and> sid = Some x \<and> x \<noteq> [] then [length (divs s)] else [])"
proof (cases "messagesContainer s")
  case None
  then show ?thesis
    by (simp add: rendered_with_def container_handleIncomingMessage shown_def)
next
  case (Some children)
  with assms have valid: "\<forall>e \<in> set children. e < length (divs s)"
    by (simp add: container_ok_def)
  then have old: "filter (\<lambda>e. ds_serverMsgId ((divs s @ ys) ! e) = Some x) children
             = filter (\<lambda>e. ds_serverMsgId (divs s ! e) = Some x) children" for ys
    by (intro filter_cong) (simp_all add: nth_append)
  show ?thesis
    using Some old
    by (simp add: rendered_with_def container_handleIncomingMessage divs_handleIncomingMessage
        truthy_def split: option.splits)
qed

lemma container_ok_handleIncomingMessage:
  assumes "container_ok x s"
  shows "container_ok x (handleIncomingMessage sid sender body ts s)"
proof (cases "messagesContainer s")
  case None
  then show ?thesis by (simp add: container_ok_def container_handleIncomingMessage)
next
  case (Some children)
  with assms have valid: "\<forall>e \<in> set children. e < length (divs s)"
    and seen: "\<forall>e \<in> set children. ds_serverMsgId (divs s ! e) = Some x \<longrightarrow>
              Some x \<in> seenMessageIds s"
    by (simp_all add: container_ok_def)
  show ?thesis
    using Some valid seen
    by (auto simp: container_ok_def container_handleIncomingMessage divs_handleIncomingMessage
        seen_handleIncomingMessage nth_append truthy_def split: option.splits)
qed

lemma once_handleIncomingMessage:
  assumes "container_ok x s" and "length (rendered_with x s) \<le> 1"
  shows "length (rendered_with x (handleIncomingMessage sid sender body ts s)) \<le> 1"
proof (cases "shown sid sender s \<and> sid = Some x \<and> x \<noteq> []")
  case True
  then have "Some x \<notin> seenMessageIds s" by (auto simp: shown_def)
  with assms(1) have "rendered_with x s = []" by (rule rendered_with_unseen)
  with True show ?thesis
    by (simp add: rendered_with_handleIncomingMessage [OF assms(1)])
next
  case False
  then have "rendered_with x (handleIncomingMessage sid sender body ts s) = rendered_with x s"
    by (simp only: rendered_with_handleIncomingMessage [OF assms(1)] if_False append_Nil2)
  with assms(2) show ?thesis by simp
qed

lemma batch_invariant:
  assumes "container_ok x s" and "length (rendered_with x s) \<le> 1"
  shows "container_ok x (handleUndeliveredBatch msgs s)
         \<and> length (rendered_with x (handleUndeliveredBatch msgs s)) \<le> 1"
proof (cases msgs)
  case None
  with assms show ?thesis by (simp add: handleUndeliveredBatch_def)
next
  case (Some items)
  have "container_ok x s \<Longrightarrow> length (rendered_with x s) \<le> 1 \<Longrightarrow>
        container_ok x (fold (\<lambda>(serverMsgId, sender, body, ts).
                         handleIncomingMessage serverMsgId sender body ts) items s)
        \<and> length (rendered_with x (fold (\<lambda>(serverMsgId, sender, body, ts).
                         handleIncomingMessage serverMsgId sender body ts) items s)) \<le> 1"
  proof (induction items arbitrary: s)
    case Nil
    then show ?case by simp
  next
    case (Cons item items)
    obtain sid sender body ts where item: "item = (sid, sender, body, ts)"
      by (cases item) auto
    have "container_ok x (handleIncomingMessage sid sender body ts s)"
      using Cons.prems(1) by (rule container_ok_handleIncomingMessage)
    moreover have "length (rendered_with x (handleIncomingMessage sid sender body ts s)) \<le> 1"
      using Cons.prems by (rule once_handleIncomingMessage)
    ultimately show ?case using Cons.IH by (simp add: item)
  qed
  with assms Some show ?thesis by (simp add: handleUndeliveredBatch_def)
qed

subsection \<open>The page under the events of a session\<close>

lemma page_cong:
  assumes "messagesContainer s' = messagesContainer s" and "divs s' = divs s"
    and "seenMessageIds s' = seenMessageIds s"
  shows "container_ok x s' = container_ok x s" and "rendered_with x s' = rendered_with x s"
  using assms by (simp_all add: container_ok_def rendered_with_def split: option.splits)

lemma scheduleReconnect_page:
  "messagesContainer (scheduleReconnect s) = messagesContainer s"
  "divs (scheduleReconnect s) = divs s"
  "seenMessageIds (scheduleReconnect s) = seenMessageIds s"
  "outgoing (scheduleReconnect s) = outgoing s"
  by (simp_all add: scheduleReconnect_def updateConnectionStatus_def Let_def)

lemma connect_page:
  "messagesContainer (connect b s) = messagesContainer s"
  "divs (connect b s) = divs s"
  "seenMessageIds (connect b s) = seenMessageIds s"
  "outgoing (connect b s) = outgoing s"
  by (simp_all add: connect_def scheduleReconnect_page Let_def updateConnectionStatus_def)

lemma handleOpen_page:
  "messagesContainer (handleOpen s) = messagesContainer s"
  "divs (handleOpen s) = divs s"
  "seenMessageIds (handleOpen s) = seenMessageIds s"
  "outgoing (handleOpen s) = outgoing s"
  by (simp_all add: handleOpen_def updateConnectionStatus_def)

lemma handleClose_page:
  "messagesContainer (handleClose b s) = messagesContainer s"
  "divs (handleClose b s) = divs s"
  "seenMessageIds (handleClose b s) = seenMessageIds s"
  "outgoing (handleClose b s) = outgoing s"
  by (simp_all add: handleClose_def scheduleReconnect_page Let_def updateConnectionStatus_def)

lemma container_ok_selectContact: "container_ok x (selectContact c s)"
  by (simp add: container_ok_def selectContact_def split: option.splits)

lemma rendered_with_selectContact: "rendered_with x (selectContact c s) = []"
  by (simp add: rendered_with_def selectContact_def split: option.splits)

lemma seen_sendMessage:
  "seenMessageIds (snd (sendMessage input cid ts s)) = seenMessageIds s"
  by (simp add: sendMessage_def Let_def appendMessage_def split: option.splits prod.splits)

lemma container_ok_sendMessage:
  assumes "container_ok x s"
  shows "container_ok x (snd (sendMessage input cid ts s))"
  using assms
  by (auto simp: sendMessage_def Let_def appendMessage_def container_ok_def truthy_def
      nth_append nth_list_update split: option.splits prod.splits if_splits)

lemma rendered_with_sendMessage:
  assumes "container_ok x s"
  shows "rendered_with x (snd (sendMessage input cid ts s)) = rendered_with x s"
proof (cases "messagesContainer s")
  case None
  then show ?thesis
    by (simp add: sendMessage_def Let_def appendMessage_def rendered_with_def
        split: option.splits prod.splits)
next
  case (Some children)
  with assms have valid: "\<forall>e \<in> set children. e < length (divs s)"
    by (simp add: container_ok_def)
  have old: "filter (\<lambda>e. ds_serverMsgId ((divs s @ [d]) ! e) = Some x) children
             = filter (\<lambda>e. ds_serverMsgId (divs s ! e) = Some x) children" for d
    using valid by (intro filter_cong) (simp_all add: nth_append)
  have old': "filter (\<lambda>e. ds_serverMsgId ((divs s @ [d])[length (divs s) := d'] ! e) = Some x) children
             = filter (\<lambda>e. ds_serverMsgId (divs s ! e) = Some x) children" for d d'
    using valid by (intro filter_cong) (auto simp: nth_append nth_list_update)
  show ?thesis
    using Some old old'
    by (simp add: sendMessage_def Let_def appendMessage_def rendered_with_def truthy_def
        split: option.splits prod.splits)
qed

lemma filter_weaker_length:
  "(\<And>a. a \<in> set xs \<Longrightarrow> P' a \<Longrightarrow> P a) \<Longrightarrow> length (filter P' xs) \<le> length (filter P xs)"
  by (induction xs) auto

lemma ds_after_update:
  assumes "i < length ds" and "y \<noteq> x"
    and "ds_serverMsgId (ds[e := (ds ! e)\<lparr>classList := cs, ds_serverMsgId := Some y\<rparr>] ! i) = Some x"
  shows "ds_serverMsgId (ds ! i) = Some x"
proof (cases "e = i")
  case True
  with assms show ?thesis by simp
next
  case False
  with assms show ?thesis by simp
qed

lemma chat_handleAckMessage_page:
  assumes "(case sid of None \<Rightarrow> ''undefined'' | Some y \<Rightarrow> y) \<noteq> x"
    and "chat_handleAckMessage sid cid s = Inr s'"
  shows "messagesContainer s' = messagesContainer s"
    and "seenMessageIds s' = seenMessageIds s"
    and "length (divs s') = length (divs s)"
    and "i < length (divs s) \<Longrightarrow> ds_serverMsgId (divs s' ! i) = Some x \<Longrightarrow>
           ds_serverMsgId (divs s ! i) = Some x"
proof -
  from assms(2) show "messagesContainer s' = messagesContainer s"
    and "seenMessageIds s' = seenMessageIds s"
    and "length (divs s') = length (divs s)"
    by (auto simp: chat_handleAckMessage_def split: if_splits option.splits)
  assume i: "i < length (divs s)" and x: "ds_serverMsgId (divs s' ! i) = Some x"
  show "ds_serverMsgId (divs s ! i) = Some x"
  proof (cases "truthy cid \<and> pendingMessages s (the cid) \<noteq> None")
    case False
    with assms(2) have "s' = s" by (auto simp: chat_handleAckMessage_def)
    with x show ?thesis by simp
  next
    case True
    with assms(2) obtain e where
      "divs s' = (divs s)
                   [e := (divs s ! e)
                      \<lparr>classList := classList_add ''delivered''
                                      (classList_remove ''pending'' (classList (divs s ! e))),
                       ds_serverMsgId :=
                         Some (case sid of None \<Rightarrow> ''undefined'' | Some y \<Rightarrow> y)\<rparr>]"
      by (auto simp: chat_handleAckMessage_def split: option.splits)
    with x have "ds_serverMsgId
                   ((divs s)
                      [e := (divs s ! e)
                         \<lparr>classList := classList_add ''delivered''
                                         (classList_remove ''pending'' (classList (divs s ! e))),
                          ds_serverMsgId :=
                            Some (case sid of None \<Rightarrow> ''undefined'' | Some y \<Rightarrow> y)\<rparr>] ! i)
                 = Some x"
      by simp
    with i assms(1) show ?thesis by (rule ds_after_update)
  qed
qed

lemma chat_handleAckMessage_invariant:
  assumes "(case sid of None \<Rightarrow> ''undefined'' | Some y \<Rightarrow> y) \<noteq> x"
    and "chat_handleAckMessage sid cid s = Inr s'"
    and "container_ok x s"
  shows "container_ok x s'" and "length (rendered_with x s') \<le> length (rendered_with x s)"
proof -
  note page = chat_handleAckMessage_page [OF assms(1,2)]
  show "container_ok x s'"
    using assms(3) page by (auto simp: container_ok_def split: option.splits)
  show "length (rendered_with x s') \<le> length (rendered_with x s)"
  proof (cases "messagesContainer s")
    case None
    with page(1) show ?thesis by (simp add: rendered_with_def)
  next
    case (Some children)
    with assms(3) have valid: "\<forall>e \<in> set children. e < length (divs s)"
      by (simp add: container_ok_def)
    have "length (filter (\<lambda>e. ds_serverMsgId (divs s' ! e) = Some x) children)
            \<le> length (filter (\<lambda>e. ds_serverMsgId (divs s ! e) = Some x) children)"
      using valid page(4) by (intro filter_weaker_length) blast
    with Some page(1) show ?thesis by (simp add: rendered_with_def)
  qed
qed

lemma chat_step_invariant:
  assumes "\<not> is_ack_for x e" and "container_ok x s" and "length (rendered_with x s) \<le> 1"
  shows "container_ok x (chat_step e s) \<and> length (rendered_with x (chat_step e s)) \<le> 1"
proof (cases e)
  case Opened
  with assms(2,3) show ?thesis
    by (simp add: chat_step_def page_cong [of "handleOpen (s\<lparr>socket := Some OPEN\<rparr>)" s]
        handleOpen_page)
next
  case (Closed wasClean)
  with assms(2,3) show ?thesis
    by (simp add: chat_step_def
        page_cong [of "handleClose wasClean (s\<lparr>socket := Some CLOSED\<rparr>)" s] handleClose_page)
next
  case (Timer_fired ctor_throws)
  with assms(2,3) show ?thesis
    by (simp add: chat_step_def
        page_cong [of "connect ctor_throws (s\<lparr>reconnectTimer := None\<rparr>)" s] connect_page
        split: option.splits)
next
  case (User_send input cid ts)
  with assms(2,3) show ?thesis
    by (simp add: chat_step_def container_ok_sendMessage rendered_with_sendMessage)
next
  case (User_select contact)
  then show ?thesis
    by (simp add: chat_step_def container_ok_selectContact rendered_with_selectContact)
next
  case (Frame data)
  show ?thesis
  proof (cases data)
    case None
    with Frame assms(2,3) show ?thesis by (simp add: chat_step_def chat_handleMessage_def)
  next
    case (Some f)
    show ?thesis
    proof (cases f)
      case (Incoming_message sid sender body ts)
      with Some Frame container_ok_handleIncomingMessage [OF assms(2), of sid sender body ts]
        once_handleIncomingMessage [OF assms(2,3), of sid sender body ts]
      show ?thesis
        by (simp add: chat_step_def chat_handleMessage_def)
    next
      case (Ack_receipt sid cid to)
      with Some Frame assms(1)
      have other: "(case sid of None \<Rightarrow> ''undefined'' | Some y \<Rightarrow> y) \<noteq> x" by simp
      show ?thesis
      proof (cases "chat_handleAckMessage sid cid s")
        case (Inl err)
        with Ack_receipt Some Frame assms(2,3) show ?thesis
          by (simp add: chat_step_def chat_handleMessage_def)
      next
        case (Inr s')
        from chat_handleAckMessage_invariant [OF other Inr assms(2)] assms(3)
        have "container_ok x s'" and "length (rendered_with x s') \<le> 1" by simp_all
        with Inr Ack_receipt Some Frame show ?thesis
          by (simp add: chat_step_def chat_handleMessage_def)
      qed
    next
      case (Undelivered_batch msgs)
      with Some Frame batch_invariant [OF assms(2,3), of msgs] show ?thesis
        by (simp add: chat_step_def chat_handleMessage_def)
    qed (use Some Frame assms(2,3) in
          \<open>simp_all add: chat_step_def chat_handleMessage_def handlePresenceUpdate_def\<close>)
  qed
qed

lemma chat_run_invariant:
  assumes "\<forall>e \<in> set es. \<not> is_ack_for x e"
    and "container_ok x s" and "length (rendered_with x s) \<le> 1"
  shows "container_ok x (chat_run es s) \<and> length (rendered_with x (chat_run es s)) \<le> 1"
  using assms
proof (induction es arbitrary: s)
  case Nil
  then show ?case by simp
next
  case (Cons e es)
  from Cons.prems have "\<not> is_ack_for x e" by simp
  from chat_step_invariant [OF this Cons.prems(2,3)]
  have "container_ok x (chat_step e s)" and "length (rendered_with x (chat_step e s)) \<le> 1"
    by simp_all
  moreover from Cons.prems have "\<forall>e \<in> set es. \<not> is_ack_for x e" by simp
  ultimately show ?case using Cons.IH by simp
qed

lemma init_page:
  "messagesContainer (init token user has_container ctor_throws)
     = (if has_container then Some [] else None)"
  "divs (init token user has_container ctor_throws) = []"
  "seenMessageIds (init token user has_container ctor_throws) = {}"
  "outgoing (init token user has_container ctor_throws) = []"
  by (simp_all add: init_def connect_page chat_initial_def)

lemma init_invariant:
  "container_ok x (init token user has_container ctor_throws)"
  "rendered_with x (init token user has_container ctor_throws) = []"
  by (simp_all add: container_ok_def rendered_with_def init_page)

subsection \<open>Acknowledgments sent by a session\<close>

lemma batch_fold_acks:
  "\<exists>acks. outgoing (fold (\<lambda>(serverMsgId, sender, body, ts).
                 handleIncomingMessage serverMsgId sender body ts) items s)
             = outgoing s @ map Ack_message acks
           \<and> (\<forall>a \<in> set acks. a \<notin> seenMessageIds s) \<and> distinct acks"
proof (induction items arbitrary: s)
  case Nil
  show ?case by (rule exI [of _ "[]"]) simp
next
  case (Cons item items)
  obtain sid sender body ts where item: "item = (sid, sender, body, ts)"
    by (cases item) auto
  let ?s1 = "handleIncomingMessage sid sender body ts s"
  from Cons.IH [of ?s1] obtain acks where
    out: "outgoing (fold (\<lambda>(serverMsgId, sender, body, ts).
            handleIncomingMessage serverMsgId sender body ts) items ?s1)
          = outgoing ?s1 @ map Ack_message acks"
    and new: "\<forall>a \<in> set acks. a \<notin> seenMessageIds ?s1" and dist: "distinct acks"
    by blast
  let ?first = "if sid \<notin> seenMessageIds s \<and> socket s = Some OPEN then [sid] else []"
  have "outgoing (fold (\<lambda>(serverMsgId, sender, body, ts).
            handleIncomingMessage serverMsgId sender body ts) (item # items) s)
        = outgoing s @ map Ack_message (?first @ acks)"
    using out by (simp add: item outgoing_handleIncomingMessage)
  moreover have "\<forall>a \<in> set (?first @ acks). a \<notin> seenMessageIds s"
    using new by (auto simp: seen_handleIncomingMessage)
  moreover have "distinct (?first @ acks)"
    using new dist by (auto simp: seen_handleIncomingMessage)
  ultimately show ?case by blast
qed

lemma batch_acks:
  "\<exists>acks. outgoing (handleUndeliveredBatch msgs s) = outgoing s @ map Ack_message acks
           \<and> (\<forall>a \<in> set acks. a \<notin> seenMessageIds s) \<and> distinct acks"
proof (cases msgs)
  case None
  show ?thesis by (rule exI [of _ "[]"]) (simp add: None handleUndeliveredBatch_def)
next
  case (Some items)
  with batch_fold_acks [of items s] show ?thesis by (simp add: handleUndeliveredBatch_def)
qed

lemma seen_batch_mono:
  "sid \<in> seenMessageIds s \<Longrightarrow> sid \<in> seenMessageIds (handleUndeliveredBatch msgs s)"
proof (cases msgs)
  case None
  then show "sid \<in> seenMessageIds s \<Longrightarrow> ?thesis" by (simp add: handleUndeliveredBatch_def)
next
  case (Some items)
  have "sid \<in> seenMessageIds s \<Longrightarrow>
        sid \<in> seenMessageIds (fold (\<lambda>(serverMsgId, sender, body, ts).
                 handleIncomingMessage serverMsgId sender body ts) items s)"
    by (induction items arbitrary: s) (auto simp: seen_handleIncomingMessage)
  with Some show "sid \<in> seenMessageIds s \<Longrightarrow> ?thesis" by (simp add: handleUndeliveredBatch_def)
qed

lemma chat_handleAckMessage_wire:
  "chat_handleAckMessage sid cid s = Inr s' \<Longrightarrow>
     outgoing s' = outgoing s \<and> seenMessageIds s' = seenMessageIds s"
  by (auto simp: chat_handleAckMessage_def split: if_splits option.splits)

lemma outgoing_sendMessage:
  "\<exists>sends. outgoing (snd (sendMessage input cid ts s)) = outgoing s @ sends
            \<and> (\<forall>f \<in> set sends. \<forall>a. f \<noteq> Ack_message a)"
proof -
  let ?body = "case input of None \<Rightarrow> [] | Some v \<Rightarrow> trim v"
  let ?sends = "if ?body \<noteq> [] \<and> selectedContact s \<noteq> [] \<and> socket s = Some OPEN
                then [Send_message (Some cid) (Some (selectedContact s)) (Some ?body) (Some ts)]
                else []"
  have "outgoing (snd (sendMessage input cid ts s)) = outgoing s @ ?sends"
    by (simp add: sendMessage_def Let_def split_beta appendMessage_frame split: option.splits)
  moreover have "\<forall>f \<in> set ?sends. \<forall>a. f \<noteq> Ack_message a" by simp
  ultimately show ?thesis by blast
qed

lemma chat_step_no_second_ack:
  assumes "sid \<in> seenMessageIds s"
  shows "sid \<in> seenMessageIds (chat_step e s) \<and> acks_of sid (chat_step e s) = acks_of sid s"
proof (cases e)
  case Opened
  with assms show ?thesis by (simp add: chat_step_def acks_of_def handleOpen_page)
next
  case (Closed wasClean)
  with assms show ?thesis by (simp add: chat_step_def acks_of_def handleClose_page)
next
  case (Timer_fired ctor_throws)
  with assms show ?thesis
    by (simp add: chat_step_def acks_of_def connect_page split: option.splits)
next
  case (User_select contact)
  with assms show ?thesis by (simp add: chat_step_def acks_of_def selectContact_def)
next
  case (User_send input cid ts)
  from outgoing_sendMessage [of input cid ts s] obtain sends where
    "outgoing (snd (sendMessage input cid ts s)) = outgoing s @ sends"
    and "\<forall>f \<in> set sends. \<forall>a. f \<noteq> Ack_message a" by blast
  then have "acks_of sid (snd (sendMessage input cid ts s)) = acks_of sid s"
    by (simp add: acks_of_def filter_empty_conv)
  with User_send assms show ?thesis by (simp add: chat_step_def seen_sendMessage)
next
  case (Frame data)
  show ?thesis
  proof (cases data)
    case None
    with Frame assms show ?thesis by (simp add: chat_step_def chat_handleMessage_def)
  next
    case (Some f)
    show ?thesis
    proof (cases f)
      case (Incoming_message sid' sender body ts)
      with Some Frame assms show ?thesis
        by (auto simp: chat_step_def chat_handleMessage_def acks_of_def
            seen_handleIncomingMessage outgoing_handleIncomingMessage)
    next
      case (Ack_receipt sid' cid to)
      with Some Frame assms chat_handleAckMessage_wire [of sid' cid s] show ?thesis
        by (auto simp: chat_step_def chat_handleMessage_def acks_of_def split: sum.splits)
    next
      case (Undelivered_batch msgs)
      from batch_acks [of msgs s] obtain acks where
        "outgoing (handleUndeliveredBatch msgs s) = outgoing s @ map Ack_message acks"
        and "\<forall>a \<in> set acks. a \<notin> seenMessageIds s" by blast
      with assms have "acks_of sid (handleUndeliveredBatch msgs s) = acks_of sid s"
        by (auto simp: acks_of_def filter_empty_conv)
      with Undelivered_batch Some Frame assms show ?thesis
        by (simp add: chat_step_def chat_handleMessage_def seen_batch_mono)
    qed (use Some Frame assms in
          \<open>simp_all add: chat_step_def chat_handleMessage_def handlePresenceUpdate_def\<close>)
  qed
qed

lemma chat_run_no_second_ack:
  "sid \<in> seenMessageIds s \<Longrightarrow>
     sid \<in> seenMessageIds (chat_run es s) \<and> acks_of sid (chat_run es s) = acks_of sid s"
proof (induction es arbitrary: s)
  case Nil
  then show ?case by simp
next
  case (Cons e es)
  from chat_step_no_second_ack [OF Cons.prems, of e]
  have "sid \<in> seenMessageIds (chat_step e s)" and "acks_of sid (chat_step e s) = acks_of sid s"
    by simp_all
  with Cons.IH [of "chat_step e s"] show ?case by simp
qed

subsection \<open>A message that was not shown stays hidden\<close>

lemma batch_hidden:
  assumes "container_ok x s" and "Some x \<in> seenMessageIds s" and "rendered_with x s = []"
  shows "rendered_with x (handleUndeliveredBatch msgs s) = []"
proof (cases msgs)
  case None
  with assms show ?thesis by (simp add: handleUndeliveredBatch_def)
next
  case (Some items)
  have "container_ok x s \<Longrightarrow> Some x \<in> seenMessageIds s \<Longrightarrow> rendered_with x s = [] \<Longrightarrow>
        rendered_with x (fold (\<lambda>(serverMsgId, sender, body, ts).
                         handleIncomingMessage serverMsgId sender body ts) items s) = []"
  proof (induction items arbitrary: s)
    case Nil
    then show ?case by simp
  next
    case (Cons item items)
    obtain sid sender body ts where item: "item = (sid, sender, body, ts)"
      by (cases item) auto
    let ?s1 = "handleIncomingMessage sid sender body ts s"
    have "container_ok x ?s1"
      using Cons.prems(1) by (rule container_ok_handleIncomingMessage)
    moreover have "Some x \<in> seenMessageIds ?s1"
      using Cons.prems(2) by (simp add: seen_handleIncomingMessage)
    moreover have "rendered_with x ?s1 = []"
      using Cons.prems(2,3)
      by (auto simp: rendered_with_handleIncomingMessage [OF Cons.prems(1)] shown_def)
    ultimately show ?case using Cons.IH by (simp add: item)
  qed
  with assms Some show ?thesis by (simp add: handleUndeliveredBatch_def)
qed

lemma chat_step_hidden:
  assumes "\<not> is_ack_for x e" and "container_ok x s" and "Some x \<in> seenMessageIds s"
    and "rendered_with x s = []"
  shows "rendered_with x (chat_step e s) = []"
proof (cases e)
  case Opened
  with assms(4) show ?thesis
    by (simp add: chat_step_def page_cong [of "handleOpen (s\<lparr>socket := Some OPEN\<rparr>)" s]
        handleOpen_page)
next
  case (Closed wasClean)
  with assms(4) show ?thesis
    by (simp add: chat_step_def
        page_cong [of "handleClose wasClean (s\<lparr>socket := Some CLOSED\<rparr>)" s] handleClose_page)
next
  case (Timer_fired ctor_throws)
  with assms(4) show ?thesis
    by (simp add: chat_step_def
        page_cong [of "connect ctor_throws (s\<lparr>reconnectTimer := None\<rparr>)" s] connect_page
        split: option.splits)
next
  case (User_send input cid ts)
  with assms(2,4) show ?thesis
    by (simp add: chat_step_def rendered_with_sendMessage)
next
  case (User_select contact)
  then show ?thesis
    by (simp add: chat_step_def rendered_with_selectContact)
next
  case (Frame data)
  show ?thesis
  proof (cases data)
    case None
    with Frame assms(4) show ?thesis by (simp add: chat_step_def chat_handleMessage_def)
  next
    case (Some f)
    show ?thesis
    proof (cases f)
      case (Incoming_message sid sender body ts)
      with Some Frame assms(3,4) show ?thesis
        by (auto simp: chat_step_def chat_handleMessage_def
            rendered_with_handleIncomingMessage [OF assms(2)] shown_def)
    next
      case (Ack_receipt sid cid to)
      with Some Frame assms(1)
      have other: "(case sid of None \<Rightarrow> ''undefined'' | Some y \<Rightarrow> y) \<noteq> x" by simp
      show ?thesis
      proof (cases "chat_handleAckMessage sid cid s")
        case (Inl err)
        with Ack_receipt Some Frame assms(4) show ?thesis
          by (simp add: chat_step_def chat_handleMessage_def)
      next
        case (Inr s')
        from chat_handleAckMessage_invariant(2) [OF other Inr assms(2)] assms(4)
        have "rendered_with x s' = []" by simp
        with Inr Ack_receipt Some Frame show ?thesis
          by (simp add: chat_step_def chat_handleMessage_def)
      qed
    next
      case (Undelivered_batch msgs)
      with Some Frame batch_hidden [OF assms(2,3,4), of msgs] show ?thesis
        by (simp add: chat_step_def chat_handleMessage_def)
    qed (use Some Frame assms(4) in
          \<open>simp_all add: chat_step_def chat_handleMessage_def handlePresenceUpdate_def\<close>)
  qed
qed

lemma chat_run_hidden:
  assumes "\<forall>e \<in> set es. \<not> is_ack_for x e"
    and "container_ok x s" and "Some x \<in> seenMessageIds s" and "rendered_with x s = []"
  shows "rendered_with x (chat_run es s) = []"
  using assms
proof (induction es arbitrary: s)
  case Nil
  then show ?case by simp
next
  case (Cons e es)
  from Cons.prems have e: "\<not> is_ack_for x e" and es: "\<forall>e \<in> set es. \<not> is_ack_for x e"
    by simp_all
  have "length (rendered_with x s) \<le> 1" using Cons.prems(4) by simp
  from chat_step_invariant [OF e Cons.prems(2) this]
  have "container_ok x (chat_step e s)" by simp
  moreover from chat_step_no_second_ack [OF Cons.prems(3), of e]
  have "Some x \<in> seenMessageIds (chat_step e s)" by simp
  moreover have "rendered_with x (chat_step e s) = []"
    using e Cons.prems(2,3,4) by (rule chat_step_hidden)
  ultimately show ?case using Cons.IH [OF es] by simp
qed

subsection \<open>The entries that inbound frames create\<close>


















subsection \<open>The receipt of a submit\<close>

lemma open_socket_frame:
  "open_socket u (ws_send w f s) = open_socket u s"
  "open_socket u (s\<lparr>messages := ms\<rparr>) = open_socket u s"
  "open_socket u ((ws_send w f s)\<lparr>messages := ms\<rparr>) = open_socket u s"
  by (simp_all add: open_socket_def ws_send_def split: option.splits)

lemma sent_ws_send: "sent (ws_send w' f s) w = sent s w @ (if w = w' then [f] else [])"
  by (simp add: ws_send_def)

lemma sent_messages_update: "sent (s\<lparr>messages := ms\<rparr>) = sent s"
  by simp

lemma sent_handleSendMessage:
  assumes "truthy clientMsgId" and "truthy to" and "truthy body"
  shows "sent (handleSendMessage env sender clientMsgId to body ts s) w =
           sent s w
           @ (if open_socket (the to) s = Some w
              then [Incoming_message (Some (generateMessageId (now_id env) (random_bytes env)))
                      sender (the body)
                      (case ts of None \<Rightarrow> now_ts env | Some t \<Rightarrow> if t = 0 then now_ts env else t)]
              else [])
           @ (if open_socket sender s = Some w
              then [Ack_receipt (Some (generateMessageId (now_id env) (random_bytes env)))
                      clientMsgId (the to)]
              else [])"
proof -
  from assms(1) obtain c where "clientMsgId = Some c" by (cases clientMsgId) (simp_all add: truthy_def)
  with assms show ?thesis
    by (cases "open_socket (the to) s"; cases "open_socket sender s")
      (auto simp add: handleSendMessage_def Let_def open_socket_frame sent_ws_send)
qed

lemma sent_handleAckMessage: "sent (handleAckMessage username serverMsgId s) = sent s"
  by (simp add: handleAckMessage_def split: option.splits)

lemma pending_chat_handleAckMessage:
  assumes "pendingMessages c cid = Some (Some e)" and "cid \<noteq> []"
  shows "chat_handleAckMessage sid (Some cid) c =
           Inr (c\<lparr>divs := (divs c)
                      [e := (divs c ! e)
                         \<lparr>classList := classList_add ''delivered''
                                         (classList_remove ''pending'' (classList (divs c ! e))),
                          ds_serverMsgId :=
                            Some (case sid of None \<Rightarrow> ''undefined'' | Some x \<Rightarrow> x)\<rparr>],
                    pendingMessages := (pendingMessages c)(cid := None)\<rparr>)"
  using assms by (simp add: chat_handleAckMessage_def truthy_def)

subsection \<open>Reconnection\<close>

text \<open>
  \<open>handleOpen\<close> resets the attempt counter; the delay scheduled for attempt \<open>k\<close> is
  \<open>min(1000 * 2^(k-1), 30000)\<close>; \<open>handleClose\<close> schedules an attempt while the
  counter is below the maximum and none once it has reached it. The \<open>catch\<close> block of
  \<open>connect\<close> schedules another attempt whatever the counter is.
\<close>

lemma handleOpen_resets_attempts:
  "reconnectAttempts (handleOpen s) = 0"
  "reconnectAttempts (chat_step Opened s) = 0"
  by (simp_all add: handleOpen_def chat_step_def updateConnectionStatus_def)

lemma scheduleReconnect_delay:
  assumes "reconnectTimer s = None" and "reconnectAttempts s + 1 = k"
  shows "reconnectAttempts (scheduleReconnect s) = k"
    and "reconnectTimer (scheduleReconnect s) = Some (min (1000 * 2 ^ (k - 1)) 30000)"
  using assms by (simp_all add: scheduleReconnect_def Let_def BASE_DELAY_def updateConnectionStatus_def)

lemma handleClose_schedules_below_maximum:
  assumes "reconnectTimer s = None" and "reconnectAttempts s + 1 = k" and "k \<le> 5"
  shows "reconnectAttempts (handleClose False s) = k"
    and "reconnectTimer (handleClose False s) = Some (min (1000 * 2 ^ (k - 1)) 30000)"
  using assms
  by (simp_all add: handleClose_def Let_def MAX_RECONNECT_ATTEMPTS_def updateConnectionStatus_def
      scheduleReconnect_delay [where s = "s\<lparr>connectionStatus := ''Disconnected''\<rparr>" and k = k])

lemma handleClose_exhausted:
  assumes "reconnectAttempts s \<ge> 5"
  shows "reconnectAttempts (handleClose wasClean s) = reconnectAttempts s"
    and "reconnectTimer (handleClose wasClean s) = reconnectTimer s"
    and "connectionStatus (handleClose wasClean s) = ''Connection failed. Please refresh.''"
  using assms
  by (simp_all add: handleClose_def Let_def MAX_RECONNECT_ATTEMPTS_def updateConnectionStatus_def)

lemma constructor_failure_reschedules:
  assumes "reconnectTimer s = Some delay"
  shows "reconnectAttempts (chat_step (Timer_fired True) s) = reconnectAttempts s + 1"
    and "reconnectTimer (chat_step (Timer_fired True) s)
           = Some (min (1000 * 2 ^ reconnectAttempts s) 30000)"
  using assms
  by (simp_all add: chat_step_def connect_def scheduleReconnect_def Let_def BASE_DELAY_def
      updateConnectionStatus_def)

subsection \<open>Evaluation of the client on concrete events\<close>

lemmas chat_eval =
  chat_step_def init_def chat_initial_def connect_def scheduleReconnect_def
  updateConnectionStatus_def handleOpen_def handleClose_def MAX_RECONNECT_ATTEMPTS_def
  BASE_DELAY_def selectContact_def sendMessage_def appendMessage_def trim_def is_space_def
  handleIncomingMessage_def chat_handleAckMessage_def handleUndeliveredBatch_def
  chat_handleMessage_def handlePresenceUpdate_def classList_add_def classList_remove_def
  truthy_def Let_def decimal.simps digit_char_def rendered_with_def acks_of_def

subsection \<open>Claims about the client session\<close>

text \<open>
  Claim C1 says that the \<open>ack_message\<close> frame that clears the sender's pending marker
  comes from the recipient's receipt handler through the server and is not generated at
  submit time, so that the marker is confirmed only after the recipient's session has
  acknowledged. Counterexample to C1: alice sends to bob, who never connects. The server
  answers her \<open>send_message\<close> with an \<open>ack_message\<close> frame, and on that frame her
  session clears the marker and shows the message as delivered; no session of bob exists.
\<close>

theorem C1_counterexample:
  "(let alice1 = chat_run [Opened, User_select ''bob'', User_send (Some ''hi'') ''c1'' 999]
                   (init (Some ''t'') (Some ''alice'') True False);
        server1 = server_run
                    [Connection ''alice'' 0,
                     Message \<lparr>now_id = 1000, random_bytes = [1, 2, 3, 4, 5, 6, 7, 8], now_ts = 1001\<rparr>
                       ''alice'' 0
                       (Some (Send_message (Some ''c1'') (Some ''bob'') (Some ''hi'') (Some 999)))]
                    server_init;
        alice2 = chat_step
                   (Frame (Some (Ack_receipt (Some ''1000-0102030405060708'') (Some ''c1'') ''bob'')))
                   alice1
    in outgoing alice1 = [Send_message (Some ''c1'') (Some ''bob'') (Some ''hi'') (Some 999)]
       \<and> pendingMessages alice1 ''c1'' = Some (Some 0)
       \<and> map classList (divs alice1) = [[''message'', ''sent'', ''pending'']]
       \<and> getOnlineUsers (sockets server1) = [''alice'']
       \<and> map fst (messages server1) = [''1000-0102030405060708'']
       \<and> sent server1 0 = [Ack_receipt (Some ''1000-0102030405060708'') (Some ''c1'') ''bob'']
       \<and> pendingMessages alice2 ''c1'' = None
       \<and> map classList (divs alice2) = [[''message'', ''sent'', ''delivered'']])"
proof -
  let ?alice1 = "chat_run [Opened, User_select ''bob'', User_send (Some ''hi'') ''c1'' 999]
                   (init (Some ''t'') (Some ''alice'') True False)"
  let ?server1 = "server_run
                    [Connection ''alice'' 0,
                     Message \<lparr>now_id = 1000, random_bytes = [1, 2, 3, 4, 5, 6, 7, 8], now_ts = 1001\<rparr>
                       ''alice'' 0
                       (Some (Send_message (Some ''c1'') (Some ''bob'') (Some ''hi'') (Some 999)))]
                    server_init"
  let ?alice2 = "chat_step
                   (Frame (Some (Ack_receipt (Some ''1000-0102030405060708'') (Some ''c1'') ''bob'')))
                   ?alice1"
  have client1: "outgoing ?alice1 = [Send_message (Some ''c1'') (Some ''bob'') (Some ''hi'') (Some 999)]"
    "pendingMessages ?alice1 ''c1'' = Some (Some 0)"
    "map classList (divs ?alice1) = [[''message'', ''sent'', ''pending'']]"
    by (simp_all add: chat_eval)
  have server: "getOnlineUsers (sockets ?server1) = [''alice'']"
    "map fst (messages ?server1) = [''1000-0102030405060708'']"
    "sent ?server1 0 = [Ack_receipt (Some ''1000-0102030405060708'') (Some ''c1'') ''bob'']"
    by (simp_all add: server_eval)
  have client2: "pendingMessages ?alice2 ''c1'' = None"
    "map classList (divs ?alice2) = [[''message'', ''sent'', ''delivered'']]"
    by (simp_all add: chat_eval)
  show ?thesis
    unfolding Let_def using client1 server client2 by blast
qed

text \<open>
  Claim C1 as amended: the \<open>ack_message\<close> frame that clears the sender's pending
  marker is generated by the server at submit time. For every accepted submit whose
  sender has an open socket, \<open>handleSendMessage\<close> sends it to the sender last, whether
  or not the recipient is reachable; the server's \<open>handleAckMessage\<close> sends no frame
  to anyone; and the sender's session clears the marker of the \<open>clientMsgId\<close> when
  the frame arrives.
\<close>

theorem C1_receipt_is_sent_at_submit:
  "(truthy clientMsgId \<and> truthy to \<and> truthy body \<and> open_socket sender s = Some w \<longrightarrow>
      last (sent (handleSendMessage env sender clientMsgId to body ts s) w)
        = Ack_receipt (Some (generateMessageId (now_id env) (random_bytes env))) clientMsgId (the to))
   \<and> sent (handleAckMessage username serverMsgId s) = sent s
   \<and> sent (server_step (Message env username w' (Some (Ack_message serverMsgId))) s) = sent s
   \<and> (pendingMessages c cid = Some (Some e) \<and> cid \<noteq> [] \<longrightarrow>
        pendingMessages (chat_handleMessage (Some (Ack_receipt sid (Some cid) recipient)) c) cid
          = None)"
  by (simp add: sent_handleSendMessage sent_handleAckMessage server_step_def handleMessage_def
      chat_handleMessage_def pending_chat_handleAckMessage)

text \<open>Claim C1, the amended statement for alice's message to bob, who is offline.\<close>

theorem C1_witness:
  "(let env = \<lparr>now_id = 1000, random_bytes = [1, 2, 3, 4, 5, 6, 7, 8], now_ts = 1001\<rparr>;
        s = server_run [Connection ''alice'' 0] server_init;
        c = chat_run [Opened, User_select ''bob'', User_send (Some ''hi'') ''c1'' 999]
              (init (Some ''t'') (Some ''alice'') True False)
    in truthy (Some ''c1'') \<and> truthy (Some ''bob'') \<and> truthy (Some ''hi'')
       \<and> open_socket ''alice'' s = Some 0 \<and> open_socket ''bob'' s = None
       \<and> last (sent (handleSendMessage env ''alice'' (Some ''c1'') (Some ''bob'') (Some ''hi'')
                        (Some 999) s) 0)
          = Ack_receipt (Some ''1000-0102030405060708'') (Some ''c1'') ''bob''
       \<and> pendingMessages c ''c1'' = Some (Some 0)
       \<and> pendingMessages
            (chat_handleMessage
               (Some (Ack_receipt (Some ''1000-0102030405060708'') (Some ''c1'') ''bob'')) c) ''c1''
          = None)"
proof -
  let ?env = "\<lparr>now_id = 1000, random_bytes = [1, 2, 3, 4, 5, 6, 7, 8], now_ts = 1001\<rparr>"
  let ?s = "server_run [Connection ''alice'' 0] server_init"
  let ?c = "chat_run [Opened, User_select ''bob'', User_send (Some ''hi'') ''c1'' 999]
              (init (Some ''t'') (Some ''alice'') True False)"
  have fields: "truthy (Some ''c1'')" "truthy (Some ''bob'')" "truthy (Some ''hi'')"
    by (simp_all add: truthy_def)
  have sockets: "open_socket ''alice'' ?s = Some 0" "open_socket ''bob'' ?s = None"
    by (simp_all add: server_eval)
  have pending: "pendingMessages ?c ''c1'' = Some (Some 0)"
    by (simp add: chat_eval)
  have id: "generateMessageId (now_id ?env) (random_bytes ?env) = ''1000-0102030405060708''"
    by (simp add: server_eval)
  note inst = C1_receipt_is_sent_at_submit
    [where clientMsgId = "Some ''c1''" and to = "Some ''bob''" and body = "Some ''hi''"
       and sender = "''alice''" and s = ?s and w = 0 and env = ?env and ts = "Some 999"
       and c = ?c and cid = "''c1''" and e = 0 and sid = "Some ''1000-0102030405060708''"
       and recipient = "''bob''"]
  from inst fields sockets(1) have
    "last (sent (handleSendMessage ?env ''alice'' (Some ''c1'') (Some ''bob'') (Some ''hi'')
                        (Some 999) ?s) 0)
          = Ack_receipt (Some (generateMessageId (now_id ?env) (random_bytes ?env))) (Some ''c1'')
              (the (Some ''bob''))"
    by blast
  then have receipt:
    "last (sent (handleSendMessage ?env ''alice'' (Some ''c1'') (Some ''bob'') (Some ''hi'')
                        (Some 999) ?s) 0)
          = Ack_receipt (Some ''1000-0102030405060708'') (Some ''c1'') ''bob''"
    unfolding id by simp
  from inst pending have cleared:
    "pendingMessages
            (chat_handleMessage
               (Some (Ack_receipt (Some ''1000-0102030405060708'') (Some ''c1'') ''bob'')) ?c) ''c1''
          = None"
    by simp
  show ?thesis
    unfolding Let_def using fields sockets receipt pending cleared by blast
qed




text \<open>
  Claim C6 says that after the fifth consecutive failed attempt the session is exhausted
  and attempts no further reconnection on any later failure. When the constructor of the
  WebSocket throws, \<open>connect\<close> calls \<open>scheduleReconnect\<close> without the test that
  \<open>handleClose\<close> makes. A session whose constructor throws at every attempt: after
  the fifth failed attempt the counter is 6 and a sixth attempt is scheduled, 30000 ms
  later.
\<close>

theorem C6_constructor_failure_passes_maximum:
  "(let s = chat_run
              [Timer_fired True, Timer_fired True, Timer_fired True, Timer_fired True,
               Timer_fired True]
              (init (Some ''t'') (Some ''a#b'') True True)
    in reconnectAttempts s = 6 \<and> reconnectTimer s = Some 30000
       \<and> connectionStatus s = ''Reconnecting in 30s...'')"
  by (simp add: chat_eval)

text \<open>Claim C6: in that run the counter has passed the maximum and a timer is pending.\<close>

theorem C6_witness:
  "MAX_RECONNECT_ATTEMPTS
     < reconnectAttempts
         (chat_run
            [Timer_fired True, Timer_fired True, Timer_fired True, Timer_fired True,
             Timer_fired True]
            (init (Some ''t'') (Some ''a#b'') True True))
   \<and> reconnectTimer
         (chat_run
            [Timer_fired True, Timer_fired True, Timer_fired True, Timer_fired True,
             Timer_fired True]
            (init (Some ''t'') (Some ''a#b'') True True)) \<noteq> None"
  using C6_constructor_failure_passes_maximum
  by (simp add: Let_def MAX_RECONNECT_ATTEMPTS_def)

text \<open>
  Claim C9: an inbound message whose \<open>serverMsgId\<close> is in the Seen-Set changes
  nothing, so no frame is sent for it, whether it comes alone or in a batch: the frames a
  batch sends are \<open>ack_message\<close> frames for other identifiers. Whatever happens to the
  session later, it sends no further \<open>ack_message\<close> for that \<open>serverMsgId\<close>.
\<close>

theorem C9_duplicate_gets_no_frame:
  assumes "serverMsgId \<in> seenMessageIds s"
  shows "handleIncomingMessage serverMsgId sender body ts s = s
       \<and> chat_handleMessage (Some (Incoming_message serverMsgId sender body ts)) s = s
       \<and> (\<exists>acks. outgoing (handleUndeliveredBatch msgs s) = outgoing s @ map Ack_message acks
                  \<and> serverMsgId \<notin> set acks)
       \<and> acks_of serverMsgId (chat_run events s) = acks_of serverMsgId s"
proof -
  from batch_acks [of msgs s] assms
  have "\<exists>acks. outgoing (handleUndeliveredBatch msgs s) = outgoing s @ map Ack_message acks
                  \<and> serverMsgId \<notin> set acks"
    by blast
  with assms chat_run_no_second_ack [OF assms, of events] show ?thesis
    by (simp add: handleIncomingMessage_seen chat_handleMessage_def)
qed

text \<open>
  Claim C9 for a message that was acknowledged once: presented again, alone, in a batch,
  and after a reconnection.
\<close>

theorem C9_witness:
  "(let s = chat_run [Opened, Frame (Some (Incoming_message (Some ''m1'') ''bob'' ''hi'' 5))]
              (init (Some ''t'') (Some ''alice'') True False)
    in Some ''m1'' \<in> seenMessageIds s
       \<and> outgoing s = [Ack_message (Some ''m1'')]
       \<and> handleIncomingMessage (Some ''m1'') ''bob'' ''hi'' 5 s = s
       \<and> outgoing (handleUndeliveredBatch
                      (Some [(Some ''m1'', ''bob'', ''hi'', 5), (Some ''m2'', ''bob'', ''yo'', 6)]) s)
          = [Ack_message (Some ''m1''), Ack_message (Some ''m2'')]
       \<and> acks_of (Some ''m1'')
            (chat_run
               [Closed False, Timer_fired False, Opened,
                Frame (Some (Undelivered_batch (Some [(Some ''m1'', ''bob'', ''hi'', 5)])))] s)
          = [Ack_message (Some ''m1'')])"
proof -
  let ?s = "chat_run [Opened, Frame (Some (Incoming_message (Some ''m1'') ''bob'' ''hi'' 5))]
              (init (Some ''t'') (Some ''alice'') True False)"
  let ?later = "[Closed False, Timer_fired False, Opened,
                Frame (Some (Undelivered_batch (Some [(Some ''m1'', ''bob'', ''hi'', 5)])))]"
  have seen: "Some ''m1'' \<in> seenMessageIds ?s"
    by (simp add: chat_eval)
  have out: "outgoing ?s = [Ack_message (Some ''m1'')]"
    by (simp add: chat_eval)
  have batch: "outgoing (handleUndeliveredBatch
                      (Some [(Some ''m1'', ''bob'', ''hi'', 5), (Some ''m2'', ''bob'', ''yo'', 6)]) ?s)
          = [Ack_message (Some ''m1''), Ack_message (Some ''m2'')]"
    by (simp add: chat_eval)
  have acks: "acks_of (Some ''m1'') ?s = [Ack_message (Some ''m1'')]"
    unfolding acks_of_def out by simp
  from C9_duplicate_gets_no_frame [OF seen, of "''bob''" "''hi''" 5 None ?later]
  have same: "handleIncomingMessage (Some ''m1'') ''bob'' ''hi'' 5 ?s = ?s"
    and later: "acks_of (Some ''m1'') (chat_run ?later ?s) = acks_of (Some ''m1'') ?s"
    by blast+
  show ?thesis
    unfolding Let_def same later acks out batch using seen by simp
qed

text \<open>
  Claim C10 says that for every incoming message whose sender is not the selected contact
  the client adds the \<open>serverMsgId\<close> to the Seen-Set and sends an \<open>ack_message\<close>
  frame. Counterexample to C10: a message from carol arrives while bob is selected and is
  acknowledged; the connection drops; after the reconnection the server presents the
  message again, alone or in a batch. Its sender is still not the selected contact, and no
  \<open>ack_message\<close> frame is sent for it.
\<close>

theorem C10_counterexample:
  "(let s = chat_run
              [Opened, User_select ''bob'',
               Frame (Some (Incoming_message (Some ''m1'') ''carol'' ''hi'' 5)),
               Closed False, Timer_fired False, Opened]
              (init (Some ''t'') (Some ''alice'') True False)
    in selectedContact s = ''bob'' \<and> socket s = Some OPEN
       \<and> outgoing s = [Ack_message (Some ''m1'')]
       \<and> outgoing (handleIncomingMessage (Some ''m1'') ''carol'' ''hi'' 5 s) = outgoing s
       \<and> outgoing (chat_step
                      (Frame (Some (Undelivered_batch (Some [(Some ''m1'', ''carol'', ''hi'', 5)]))))
                      s)
          = outgoing s)"
  by (simp add: chat_eval)

text \<open>
  Claim C10 as amended: for every incoming message whose \<open>serverMsgId\<close> is not yet in
  the Seen-Set and whose sender differs from the selected contact (a contact being
  selected), the socket being open, the client adds the \<open>serverMsgId\<close> to the Seen-Set,
  sends one \<open>ack_message\<close> frame and renders nothing; no later event of the session
  makes the page show an entry for it (selecting a contact empties the container, and the
  message is dropped when it is presented again); and the server removes the outbox entry
  on that \<open>ack_message\<close> when the acking identity is the entry's recipient. The session
  is any session run from \<open>init\<close> in which no \<open>ack_message\<close> frame writes that
  \<open>serverMsgId\<close> onto a sent message.
\<close>

theorem C10_acknowledged_but_not_shown:
  assumes "\<forall>e \<in> set before. \<not> is_ack_for x e"
    and "s = chat_run before (init token user has_container ctor_throws)"
    and "Some x \<notin> seenMessageIds s"
    and "socket s = Some OPEN"
    and "selectedContact s \<noteq> []"
    and "sender \<noteq> selectedContact s"
    and "\<forall>e \<in> set later. \<not> is_ack_for x e"
  shows "seenMessageIds (handleIncomingMessage (Some x) sender body ts s)
           = insert (Some x) (seenMessageIds s)
       \<and> outgoing (handleIncomingMessage (Some x) sender body ts s)
           = outgoing s @ [Ack_message (Some x)]
       \<and> messagesContainer (handleIncomingMessage (Some x) sender body ts s)
           = messagesContainer s
       \<and> divs (handleIncomingMessage (Some x) sender body ts s) = divs s
       \<and> rendered_with x (chat_run later (handleIncomingMessage (Some x) sender body ts s)) = []
       \<and> (x \<noteq> [] \<and> getMessage x (messages srv) = Some m \<and> m_to m = username \<longrightarrow>
             getMessage x
               (messages (handleMessage env username (Ack_message (Some x)) w srv)) = None)"
proof -
  let ?s' = "handleIncomingMessage (Some x) sender body ts s"
  have not_shown: "\<not> shown (Some x) sender s"
    using assms(5,6) by (simp add: shown_def)
  have ok: "container_ok x s"
    using chat_run_invariant [OF assms(1) init_invariant(1)]
    by (simp add: assms(2) init_invariant)
  have ok': "container_ok x ?s'"
    using ok by (rule container_ok_handleIncomingMessage)
  have hidden: "rendered_with x (chat_run later ?s') = []"
  proof -
    from ok assms(3) have "rendered_with x s = []" by (rule rendered_with_unseen)
    with not_shown have "rendered_with x ?s' = []"
      by (simp add: rendered_with_handleIncomingMessage [OF ok])
    moreover have "Some x \<in> seenMessageIds ?s'"
      by (simp add: seen_handleIncomingMessage)
    ultimately show ?thesis
      using chat_run_hidden [OF assms(7) ok'] by simp
  qed
  have server: "getMessage x (messages (handleMessage env username (Ack_message (Some x)) w srv)) = None"
    if "x \<noteq> []" "getMessage x (messages srv) = Some m" "m_to m = username"
    using that
    by (simp add: handleMessage_def handleAckMessage_def truthy_def getMessage_removeMessage)
  show ?thesis
    using not_shown assms(3,4) hidden server
    by (simp add: seen_handleIncomingMessage outgoing_handleIncomingMessage
        container_handleIncomingMessage divs_handleIncomingMessage split: option.splits)
qed

text \<open>
  Claim C10, the amended statement for a message from carol while bob is selected. Alice
  has sent a message to bob and got its receipt before; afterwards she selects carol and
  the message is presented again.
\<close>

theorem C10_witness:
  "(let before = [Opened, User_select ''bob'', User_send (Some ''yo'') ''c1'' 999,
                  Frame (Some (Ack_receipt (Some ''m0'') (Some ''c1'') ''bob''))];
        s = chat_run before (init (Some ''t'') (Some ''alice'') True False);
        s' = handleIncomingMessage (Some ''m1'') ''carol'' ''hi'' 5 s;
        later = [User_select ''carol'',
                 Frame (Some (Incoming_message (Some ''m1'') ''carol'' ''hi'' 5))];
        m = \<lparr>m_serverMsgId = ''m1'', m_clientMsgId = ''c7'', m_from = ''carol'',
             m_to = ''alice'', m_body = ''hi'', m_ts = 5\<rparr>;
        srv = server_init\<lparr>messages := [(''m1'', m)]\<rparr>
    in \<not> list_ex (is_ack_for ''m1'') before \<and> \<not> list_ex (is_ack_for ''m1'') later
       \<and> Some ''m1'' \<notin> seenMessageIds s \<and> socket s = Some OPEN
       \<and> selectedContact s = ''bob''
       \<and> seenMessageIds s' = {Some ''m1''}
       \<and> outgoing s'
          = [Send_message (Some ''c1'') (Some ''bob'') (Some ''yo'') (Some 999),
             Ack_message (Some ''m1'')]
       \<and> messagesContainer s' = Some [0] \<and> map ds_serverMsgId (divs s') = [Some ''m0'']
       \<and> rendered_with ''m1'' (chat_run later s') = []
       \<and> getMessage ''m1'' (messages srv) = Some m
       \<and> getMessage ''m1''
            (messages (handleMessage \<lparr>now_id = 1000, random_bytes = [], now_ts = 1001\<rparr>
                         ''alice'' (Ack_message (Some ''m1'')) 0 srv)) = None)"
  using C10_acknowledged_but_not_shown
    [where before = "[Opened, User_select ''bob'', User_send (Some ''yo'') ''c1'' 999,
                      Frame (Some (Ack_receipt (Some ''m0'') (Some ''c1'') ''bob''))]"
       and s = "chat_run [Opened, User_select ''bob'', User_send (Some ''yo'') ''c1'' 999,
                          Frame (Some (Ack_receipt (Some ''m0'') (Some ''c1'') ''bob''))]
                  (init (Some ''t'') (Some ''alice'') True False)"
       and token = "Some ''t''" and user = "Some ''alice''" and has_container = True
       and ctor_throws = False and x = "''m1''" and sender = "''carol''"
       and later = "[User_select ''carol'',
                     Frame (Some (Incoming_message (Some ''m1'') ''carol'' ''hi'' 5))]"
       and body = "''hi''" and ts = 5
       and srv = "server_init\<lparr>messages := [(''m1'',
                    \<lparr>m_serverMsgId = ''m1'', m_clientMsgId = ''c7'', m_from = ''carol'',
                     m_to = ''alice'', m_body = ''hi'', m_ts = 5\<rparr>)]\<rparr>"
       and m = "\<lparr>m_serverMsgId = ''m1'', m_clientMsgId = ''c7'', m_from = ''carol'',
                     m_to = ''alice'', m_body = ''hi'', m_ts = 5\<rparr>"
       and username = "''alice''"
       and env = "\<lparr>now_id = 1000, random_bytes = [], now_ts = 1001\<rparr>" and w = 0]
  by (simp add: chat_eval handleMessage_def handleAckMessage_def getMessage_def removeMessage_def
      server_init_def)

end
